theory Spec2Isabelle
  imports Complex_Main
begin

section \<open>Numeric values\<close>

text \<open>
  The arrays of \<^verbatim>\<open>ThreeBodyProblem.py\<close> hold double-precision numbers. They are modelled
  in exact arithmetic: a finite value is a real number, and the three special values
  that a division can produce (\<^verbatim>\<open>inf\<close>, \<^verbatim>\<open>-inf\<close>, \<^verbatim>\<open>nan\<close>) are kept as values of their
  own, since numpy returns them instead of raising. Rounding, overflow and underflow of
  finite results and the sign of zero are not modelled: a product or a norm that the
  double arithmetic rounds, or lets underflow to zero, is exact here. A statement below
  about the value of a product, a quotient or a root of nonzero finite numbers is therefore
  a statement of exact arithmetic; the statements about which terms are computed, in which
  order, from which positions and into which array do not depend on the operations.
\<close>

datatype fl = Fin real | PInf | NInf | NaN

fun fneg :: "fl \<Rightarrow> fl" where
  "fneg (Fin x) = Fin (- x)"
| "fneg PInf = NInf"
| "fneg NInf = PInf"
| "fneg NaN = NaN"

fun fadd :: "fl \<Rightarrow> fl \<Rightarrow> fl" where
  "fadd (Fin x) (Fin y) = Fin (x + y)"
| "fadd NaN b = NaN"
| "fadd a NaN = NaN"
| "fadd PInf NInf = NaN"
| "fadd NInf PInf = NaN"
| "fadd PInf b = PInf"
| "fadd NInf b = NInf"
| "fadd a PInf = PInf"
| "fadd a NInf = NInf"

definition fsub :: "fl \<Rightarrow> fl \<Rightarrow> fl" where
  "fsub a b = fadd a (fneg b)"

text \<open>The sign of a value: \<open>1\<close>, \<open>-1\<close>, or \<open>0\<close> for zero.\<close>

fun fsign :: "fl \<Rightarrow> int" where
  "fsign (Fin x) = (if x > 0 then 1 else if x < 0 then - 1 else 0)"
| "fsign PInf = 1"
| "fsign NInf = - 1"
| "fsign NaN = 0"

definition signed_inf :: "int \<Rightarrow> fl" where
  "signed_inf s = (if s > 0 then PInf else if s < 0 then NInf else NaN)"

fun fmul :: "fl \<Rightarrow> fl \<Rightarrow> fl" where
  "fmul (Fin x) (Fin y) = Fin (x * y)"
| "fmul NaN b = NaN"
| "fmul a NaN = NaN"
| "fmul a b = signed_inf (fsign a * fsign b)"

text \<open>
  Division as numpy performs it on doubles: a zero divisor gives an infinity or
  \<^verbatim>\<open>nan\<close> (with a warning only), never an exception. The only divisor of the program is
  the cube of a norm, whose zero is the positive zero.
\<close>

fun fdiv :: "fl \<Rightarrow> fl \<Rightarrow> fl" where
  "fdiv (Fin x) (Fin y) = (if y = 0 then signed_inf (fsign (Fin x)) else Fin (x / y))"
| "fdiv NaN b = NaN"
| "fdiv a NaN = NaN"
| "fdiv (Fin x) PInf = Fin 0"
| "fdiv (Fin x) NInf = Fin 0"
| "fdiv PInf (Fin y) = (if y < 0 then NInf else PInf)"
| "fdiv NInf (Fin y) = (if y < 0 then PInf else NInf)"
| "fdiv PInf PInf = NaN"
| "fdiv PInf NInf = NaN"
| "fdiv NInf PInf = NaN"
| "fdiv NInf NInf = NaN"

fun fsqrt :: "fl \<Rightarrow> fl" where
  "fsqrt (Fin x) = (if x < 0 then NaN else Fin (sqrt x))"
| "fsqrt PInf = PInf"
| "fsqrt NInf = NaN"
| "fsqrt NaN = NaN"

text \<open>\<^verbatim>\<open>dist**3\<close>\<close>

definition fcube :: "fl \<Rightarrow> fl" where
  "fcube a = fmul (fmul a a) a"

section \<open>Vectors and arrays\<close>

text \<open>A row of a position or velocity array: three components.\<close>

datatype 'a vec3 = Vec3 (vx: 'a) (vy: 'a) (vz: 'a)

definition vzero :: "fl vec3" where
  "vzero = Vec3 (Fin 0) (Fin 0) (Fin 0)"

fun vadd :: "fl vec3 \<Rightarrow> fl vec3 \<Rightarrow> fl vec3" where
  "vadd (Vec3 a b c) (Vec3 d e f) = Vec3 (fadd a d) (fadd b e) (fadd c f)"

fun vsub :: "fl vec3 \<Rightarrow> fl vec3 \<Rightarrow> fl vec3" where
  "vsub (Vec3 a b c) (Vec3 d e f) = Vec3 (fsub a d) (fsub b e) (fsub c f)"

text \<open>scalar \<^verbatim>\<open>*\<close> row\<close>

fun vscale :: "fl \<Rightarrow> fl vec3 \<Rightarrow> fl vec3" where
  "vscale k (Vec3 a b c) = Vec3 (fmul k a) (fmul k b) (fmul k c)"

text \<open>row \<^verbatim>\<open>*\<close> scalar\<close>

fun vtimes :: "fl vec3 \<Rightarrow> fl \<Rightarrow> fl vec3" where
  "vtimes (Vec3 a b c) k = Vec3 (fmul a k) (fmul b k) (fmul c k)"

text \<open>row \<^verbatim>\<open>/\<close> scalar\<close>

fun vdiv :: "fl vec3 \<Rightarrow> fl \<Rightarrow> fl vec3" where
  "vdiv (Vec3 a b c) k = Vec3 (fdiv a k) (fdiv b k) (fdiv c k)"

text \<open>\<^verbatim>\<open>np.linalg.norm\<close> of a row: the square root of its dot product with itself.\<close>

fun norm_vec :: "fl vec3 \<Rightarrow> fl" where
  "norm_vec (Vec3 a b c) = fsqrt (fadd (fadd (fmul a a) (fmul b b)) (fmul c c))"

section \<open>Errors and loops\<close>

text \<open>
  The exceptions the simulation code can raise: an index out of range, and a shape
  that numpy cannot broadcast (or a negative dimension).
\<close>

datatype error = IndexError | ValueError

definition index :: "'a list \<Rightarrow> nat \<Rightarrow> error + 'a" where
  "index xs i = (if i < length xs then Inr (xs ! i) else Inl IndexError)"

definition bind_err :: "'e + 'a \<Rightarrow> ('a \<Rightarrow> 'e + 'b) \<Rightarrow> 'e + 'b" where
  "bind_err r f = (case r of Inl e \<Rightarrow> Inl e | Inr v \<Rightarrow> f v)"

text \<open>A \<^verbatim>\<open>for\<close> loop over a list of indices; the first exception ends it.\<close>

fun for_each :: "nat list \<Rightarrow> (nat \<Rightarrow> 's \<Rightarrow> 'e + 's) \<Rightarrow> 's \<Rightarrow> 'e + 's" where
  "for_each [] body s = Inr s"
| "for_each (k # ks) body s = bind_err (body k s) (for_each ks body)"

text \<open>\<^verbatim>\<open>range(n)\<close> for a Python integer \<open>n\<close>\<close>

definition range_py :: "int \<Rightarrow> nat list" where
  "range_py n = [0..<nat n]"

section \<open>The acceleration law\<close>

text \<open>\<^verbatim>\<open>G = 6.67430e-11\<close>\<close>

definition G_real :: real where
  "G_real = 667430 / 10 ^ 16"

definition G :: fl where
  "G = Fin G_real"

text \<open>
  The body of the inner loop of \<^verbatim>\<open>compute_accelerations\<close>, for one pair \<open>(i, j)\<close>:
  \<^verbatim>\<open>
  if i != j:
      r = pos[j] - pos[i]
      dist = np.linalg.norm(r)
      acc[i] += G * masses[j] * r / dist**3
  \<close>
\<close>

definition accumulate ::
  "fl list \<Rightarrow> fl vec3 list \<Rightarrow> nat \<Rightarrow> nat \<Rightarrow> fl vec3 list \<Rightarrow> error + fl vec3 list" where
  "accumulate masses pos i j acc =
     (if i \<noteq> j then
        bind_err (index pos j) (\<lambda>pj.
        bind_err (index pos i) (\<lambda>pi.
          let r = vsub pj pi; dist = norm_vec r in
          bind_err (index acc i) (\<lambda>ai.
          bind_err (index masses j) (\<lambda>mj.
            Inr (acc[i := vadd ai (vdiv (vscale (fmul G mj) r) (fcube dist))])))))
      else Inr acc)"

text \<open>\<^verbatim>\<open>np.zeros_like(pos)\<close>\<close>

definition zeros_like :: "fl vec3 list \<Rightarrow> fl vec3 list" where
  "zeros_like pos = replicate (length pos) vzero"

text \<open>
  \<^verbatim>\<open>compute_accelerations(pos)\<close>; the module-level array \<^verbatim>\<open>masses\<close> that it reads is the
  first argument.
\<close>

definition compute_accelerations :: "fl list \<Rightarrow> fl vec3 list \<Rightarrow> error + fl vec3 list" where
  "compute_accelerations masses pos =
     for_each (range_py 3) (\<lambda>i. for_each (range_py 3) (\<lambda>j. accumulate masses pos i j))
       (zeros_like pos)"

section \<open>The acceleration law as the specification states it\<close>

text \<open>
  \<open>acceleration(i) = G * \<Sum>\<^sub>j\<^sub>\<noteq>\<^sub>i mass[j] * (pos[j] - pos[i]) / |pos[j] - pos[i]|\<^sup>3\<close>,
  in real arithmetic, one component at a time.
\<close>

definition distance :: "real vec3 \<Rightarrow> real vec3 \<Rightarrow> real" where
  "distance p q = sqrt ((vx p - vx q)\<^sup>2 + (vy p - vy q)\<^sup>2 + (vz p - vz q)\<^sup>2)"

definition newton_component ::
  "(real vec3 \<Rightarrow> real) \<Rightarrow> real list \<Rightarrow> real vec3 list \<Rightarrow> nat \<Rightarrow> real" where
  "newton_component c mass pos i =
     G_real * (\<Sum>j \<in> {0..<length pos} - {i}.
                 mass ! j * (c (pos ! j) - c (pos ! i)) / distance (pos ! j) (pos ! i) ^ 3)"

definition newton_acceleration :: "real list \<Rightarrow> real vec3 list \<Rightarrow> nat \<Rightarrow> real vec3" where
  "newton_acceleration mass pos i =
     Vec3 (newton_component vx mass pos i) (newton_component vy mass pos i)
       (newton_component vz mass pos i)"

text \<open>The term that body \<open>j\<close> of mass \<open>m\<close> at \<open>q\<close> adds to the acceleration of a body at \<open>p\<close>.\<close>

definition pull :: "real \<Rightarrow> real vec3 \<Rightarrow> real vec3 \<Rightarrow> real vec3" where
  "pull m q p = Vec3 (G_real * m * (vx q - vx p) / distance q p ^ 3)
                     (G_real * m * (vy q - vy p) / distance q p ^ 3)
                     (G_real * m * (vz q - vz p) / distance q p ^ 3)"

section \<open>The acceleration law over any arithmetic\<close>

text \<open>
  The operations that numpy applies to the elements of the arrays are not part of the
  script. To state what \<^verbatim>\<open>compute_accelerations\<close> computes whatever these operations do,
  the function is given here with the operations as parameters: the zero of
  \<^verbatim>\<open>np.zeros_like\<close>, the constant \<^verbatim>\<open>G\<close>, addition, subtraction, multiplication and division
  of elements, the third power and \<^verbatim>\<open>np.linalg.norm\<close> of a row. The double arithmetic is one
  choice of the parameters, the exact arithmetic above another.
\<close>

record 'a arithmetic =
  zero_of :: 'a
  G_of :: 'a
  add_of :: "'a \<Rightarrow> 'a \<Rightarrow> 'a"
  sub_of :: "'a \<Rightarrow> 'a \<Rightarrow> 'a"
  mul_of :: "'a \<Rightarrow> 'a \<Rightarrow> 'a"
  div_of :: "'a \<Rightarrow> 'a \<Rightarrow> 'a"
  cube_of :: "'a \<Rightarrow> 'a"
  norm_of :: "'a vec3 \<Rightarrow> 'a"

text \<open>The operations of numpy on rows, element by element.\<close>

fun vadd_in :: "'a arithmetic \<Rightarrow> 'a vec3 \<Rightarrow> 'a vec3 \<Rightarrow> 'a vec3" where
  "vadd_in A (Vec3 a b c) (Vec3 d e f) = Vec3 (add_of A a d) (add_of A b e) (add_of A c f)"

fun vsub_in :: "'a arithmetic \<Rightarrow> 'a vec3 \<Rightarrow> 'a vec3 \<Rightarrow> 'a vec3" where
  "vsub_in A (Vec3 a b c) (Vec3 d e f) = Vec3 (sub_of A a d) (sub_of A b e) (sub_of A c f)"

fun vscale_in :: "'a arithmetic \<Rightarrow> 'a \<Rightarrow> 'a vec3 \<Rightarrow> 'a vec3" where
  "vscale_in A k (Vec3 a b c) = Vec3 (mul_of A k a) (mul_of A k b) (mul_of A k c)"

fun vdiv_in :: "'a arithmetic \<Rightarrow> 'a vec3 \<Rightarrow> 'a \<Rightarrow> 'a vec3" where
  "vdiv_in A (Vec3 a b c) k = Vec3 (div_of A a k) (div_of A b k) (div_of A c k)"

text \<open>
  The term that the statement of the inner loop adds to \<^verbatim>\<open>acc[i]\<close> for one other body of mass
  \<open>m\<close> at \<open>q\<close>, seen from \<open>p\<close>: \<^verbatim>\<open>G * masses[j] * r / dist**3\<close>, evaluated from left to right.
\<close>

definition pair_term_in :: "'a arithmetic \<Rightarrow> 'a \<Rightarrow> 'a vec3 \<Rightarrow> 'a vec3 \<Rightarrow> 'a vec3" where
  "pair_term_in A m q p =
     (let r = vsub_in A q p; dist = norm_of A r
      in vdiv_in A (vscale_in A (mul_of A (G_of A) m) r) (cube_of A dist))"

text \<open>The statement of the inner loop and the function, as above.\<close>

definition accumulate_in ::
  "'a arithmetic \<Rightarrow> 'a list \<Rightarrow> 'a vec3 list \<Rightarrow> nat \<Rightarrow> nat \<Rightarrow> 'a vec3 list \<Rightarrow> error + 'a vec3 list" where
  "accumulate_in A mass pos i j acc =
     (if i \<noteq> j then
        bind_err (index pos j) (\<lambda>pj.
        bind_err (index pos i) (\<lambda>pi.
          let r = vsub_in A pj pi; dist = norm_of A r in
          bind_err (index acc i) (\<lambda>ai.
          bind_err (index mass j) (\<lambda>mj.
            Inr (acc[i := vadd_in A ai
              (vdiv_in A (vscale_in A (mul_of A (G_of A) mj) r) (cube_of A dist))])))))
      else Inr acc)"

definition compute_accelerations_in ::
  "'a arithmetic \<Rightarrow> 'a list \<Rightarrow> 'a vec3 list \<Rightarrow> error + 'a vec3 list" where
  "compute_accelerations_in A mass pos =
     for_each (range_py 3) (\<lambda>i. for_each (range_py 3) (\<lambda>j. accumulate_in A mass pos i j))
       (replicate (length pos) (Vec3 (zero_of A) (zero_of A) (zero_of A)))"

text \<open>
  The sum of the specification for body \<open>i\<close> of a snapshot: it ranges over every other row
  \<open>j\<close> of the snapshot, whatever the number of rows, and adds the terms to zero in the order
  of \<open>j\<close>.
\<close>

definition pairwise_sum_in :: "'a arithmetic \<Rightarrow> 'a list \<Rightarrow> 'a vec3 list \<Rightarrow> nat \<Rightarrow> 'a vec3" where
  "pairwise_sum_in A mass pos i =
     foldl (vadd_in A) (Vec3 (zero_of A) (zero_of A) (zero_of A))
       (map (\<lambda>j. pair_term_in A (mass ! j) (pos ! j) (pos ! i))
         (filter (\<lambda>j. j \<noteq> i) [0..<length pos]))"

text \<open>The exact arithmetic of the first section.\<close>

definition exact :: "fl arithmetic" where
  "exact = \<lparr>zero_of = Fin 0, G_of = G, add_of = fadd, sub_of = fsub, mul_of = fmul,
     div_of = fdiv, cube_of = fcube, norm_of = norm_vec\<rparr>"

section \<open>The simulation state and the integration loop\<close>

text \<open>
  The module-level variables that the loop reads and writes. \<^verbatim>\<open>trajectories\<close> is indexed
  by body, then by step.
\<close>

record world =
  masses :: "fl list"
  positions :: "fl vec3 list"
  velocities :: "fl vec3 list"
  dt :: fl
  trajectories :: "fl vec3 list list"

text \<open>
  \<^verbatim>\<open>np.zeros((3, steps, 3))\<close>: numpy rejects a negative dimension with a
  \<^verbatim>\<open>ValueError\<close>.
\<close>

definition zeros_3d :: "int \<Rightarrow> error + fl vec3 list list" where
  "zeros_3d steps =
     (if steps < 0 then Inl ValueError
      else Inr (replicate 3 (replicate (nat steps) vzero)))"

text \<open>
  \<^verbatim>\<open>trajectories[:, t] = positions\<close>: the values of \<^verbatim>\<open>positions\<close> are copied into column
  \<open>t\<close> of every body. numpy broadcasts an array of one row to all bodies and rejects any
  other row count that differs from the number of bodies.
\<close>

definition record_positions ::
  "nat \<Rightarrow> fl vec3 list \<Rightarrow> fl vec3 list list \<Rightarrow> error + fl vec3 list list" where
  "record_positions t pos traj =
     (if \<not> list_all (\<lambda>row. t < length row) traj then Inl IndexError
      else if length pos = length traj then Inr (map2 (\<lambda>row p. row[t := p]) traj pos)
      else if length pos = 1 then Inr (map (\<lambda>row. row[t := pos ! 0]) traj)
      else Inl ValueError)"

text \<open>array \<^verbatim>\<open>*\<close> scalar\<close>

definition times_scalar :: "fl vec3 list \<Rightarrow> fl \<Rightarrow> fl vec3 list" where
  "times_scalar a k = map (\<lambda>row. vtimes row k) a"

text \<open>
  \<^verbatim>\<open>a += b\<close> on arrays, in place: \<open>b\<close> is broadcast to the shape of \<open>a\<close>, which does not
  change.
\<close>

definition iadd :: "fl vec3 list \<Rightarrow> fl vec3 list \<Rightarrow> error + fl vec3 list" where
  "iadd a b =
     (if length b = length a then Inr (map2 vadd a b)
      else if length b = 1 then Inr (map (\<lambda>row. vadd row (b ! 0)) a)
      else Inl ValueError)"

text \<open>
  The body of the main loop, for step index \<open>t\<close>:
  \<^verbatim>\<open>
  trajectories[:, t] = positions
  acc = compute_accelerations(positions)
  velocities += acc * dt
  positions += velocities * dt
  \<close>
\<close>

definition step :: "nat \<Rightarrow> world \<Rightarrow> error + world" where
  "step t w =
     bind_err (record_positions t (positions w) (trajectories w)) (\<lambda>traj.
       let w1 = w\<lparr>trajectories := traj\<rparr> in
       bind_err (compute_accelerations (masses w1) (positions w1)) (\<lambda>acc.
       bind_err (iadd (velocities w1) (times_scalar acc (dt w1))) (\<lambda>vel.
         let w2 = w1\<lparr>velocities := vel\<rparr> in
         bind_err (iadd (positions w2) (times_scalar (velocities w2) (dt w2))) (\<lambda>pos.
           Inr (w2\<lparr>positions := pos\<rparr>)))))"

text \<open>
  The simulation part of the script, lines 55 to 73, as a function of the five values
  the script sets before it: the buffer is allocated, then the loop runs
  \<^verbatim>\<open>for t in range(steps)\<close>.
\<close>

definition initial_world ::
  "fl list \<Rightarrow> fl vec3 list \<Rightarrow> fl vec3 list \<Rightarrow> fl \<Rightarrow> fl vec3 list list \<Rightarrow> world" where
  "initial_world ms ps vs h traj =
     \<lparr>masses = ms, positions = ps, velocities = vs, dt = h, trajectories = traj\<rparr>"

definition simulate ::
  "fl list \<Rightarrow> fl vec3 list \<Rightarrow> fl vec3 list \<Rightarrow> fl \<Rightarrow> int \<Rightarrow> error + world" where
  "simulate ms ps vs h steps =
     bind_err (zeros_3d steps) (\<lambda>traj.
       for_each (range_py steps) step (initial_world ms ps vs h traj))"

text \<open>
  The shape that the script gives its arrays: three rows each (at least three masses),
  and a trajectory of three bodies with \<open>n\<close> steps each.
\<close>

definition well_shaped :: "nat \<Rightarrow> world \<Rightarrow> bool" where
  "well_shaped n w \<longleftrightarrow>
     3 \<le> length (masses w) \<and> length (positions w) = 3 \<and> length (velocities w) = 3 \<and>
     length (trajectories w) = 3 \<and> list_all (\<lambda>row. length row = n) (trajectories w)"

text \<open>The initial conditions and settings of the script, lines 34 to 52.\<close>

definition masses_init :: "fl list" where
  "masses_init = [Fin (10 ^ 27), Fin (15 * 10 ^ 26), Fin (55 * 10 ^ 25)]"

definition positions_init :: "fl vec3 list" where
  "positions_init =
     [Vec3 (Fin (10 ^ 10)) (Fin 0) (Fin 0),
      Vec3 (Fin (- (10 ^ 10))) (Fin 0) (Fin 0),
      Vec3 (Fin 0) (Fin (10 ^ 10)) (Fin 0)]"

definition velocities_init :: "fl vec3 list" where
  "velocities_init =
     [Vec3 (Fin 10) (Fin 1000) (Fin (- 150)),
      Vec3 (Fin (- 20)) (Fin (- 1500)) (Fin 100),
      Vec3 (Fin 2000) (Fin 0) (Fin 250)]"

definition dt_init :: fl where
  "dt_init = Fin 2500"

definition steps_init :: int where
  "steps_init = 50000"

text \<open>A row whose three components are \<^verbatim>\<open>nan\<close>.\<close>

definition vnan :: "fl vec3" where
  "vnan = Vec3 NaN NaN NaN"

text \<open>The script's initial positions with the second body moved onto the first.\<close>

definition positions_coincident :: "fl vec3 list" where
  "positions_coincident =
     [Vec3 (Fin (10 ^ 10)) (Fin 0) (Fin 0),
      Vec3 (Fin (10 ^ 10)) (Fin 0) (Fin 0),
      Vec3 (Fin 0) (Fin (10 ^ 10)) (Fin 0)]"




text \<open>The state with the masses after the third dropped.\<close>

definition truncate_masses :: "world \<Rightarrow> world" where
  "truncate_masses w = w\<lparr>masses := take 3 (masses w)\<rparr>"

section \<open>The arrays as objects in a store\<close>

text \<open>
  Which arrays a statement writes is not visible in a model that passes values. For
  that question the same lines of the script are modelled once more with the two-dimensional
  arrays as objects in a store: \<^verbatim>\<open>positions\<close> and \<^verbatim>\<open>velocities\<close> are bound to fixed
  references, \<^verbatim>\<open>np.zeros_like\<close> allocates a new object, a call passes the reference of its
  argument, and \<^verbatim>\<open>+=\<close> writes into the object it is applied to. The one-dimensional
  \<^verbatim>\<open>masses\<close> and the three-dimensional \<^verbatim>\<open>trajectories\<close> are objects of their own.
\<close>

type_synonym ref = nat

text \<open>
  A run of the store model ends with an exception of the script, or, for a store in
  which a reference names no array, with that reference; the latter does not occur in
  the script, where every name is bound before it is used.
\<close>

datatype fault = Raised error | Unbound ref

record heap =
  h_masses :: "fl list"
  h_dt :: fl
  h_arrays :: "ref \<rightharpoonup> fl vec3 list"
  h_trajectories :: "fl vec3 list list"
  h_fresh :: ref

definition positions_ref :: ref where
  "positions_ref = 0"

definition velocities_ref :: ref where
  "velocities_ref = 1"

text \<open>An exception of the value-passing operations, passed on.\<close>

definition raise :: "error + 'a \<Rightarrow> fault + 'a" where
  "raise r = map_sum Raised id r"

definition deref :: "heap \<Rightarrow> ref \<Rightarrow> fault + fl vec3 list" where
  "deref s r = (case h_arrays s r of None \<Rightarrow> Inl (Unbound r) | Some a \<Rightarrow> Inr a)"

definition store :: "ref \<Rightarrow> fl vec3 list \<Rightarrow> heap \<Rightarrow> heap" where
  "store r a s = s\<lparr>h_arrays := (h_arrays s)(r \<mapsto> a)\<rparr>"

definition alloc :: "fl vec3 list \<Rightarrow> heap \<Rightarrow> ref \<times> heap" where
  "alloc a s = (h_fresh s, (store (h_fresh s) a s)\<lparr>h_fresh := Suc (h_fresh s)\<rparr>)"

text \<open>The statement of the inner loop: it reads \<^verbatim>\<open>pos\<close> and \<^verbatim>\<open>masses\<close> and writes \<^verbatim>\<open>acc[i]\<close>.\<close>

definition accumulate_h :: "ref \<Rightarrow> ref \<Rightarrow> nat \<Rightarrow> nat \<Rightarrow> heap \<Rightarrow> fault + heap" where
  "accumulate_h pos acc i j s =
     (if i \<noteq> j then
        bind_err (deref s pos) (\<lambda>P.
        bind_err (raise (index P j)) (\<lambda>pj.
        bind_err (raise (index P i)) (\<lambda>pi.
          let r = vsub pj pi; dist = norm_vec r in
          bind_err (deref s acc) (\<lambda>A.
          bind_err (raise (index A i)) (\<lambda>ai.
          bind_err (raise (index (h_masses s) j)) (\<lambda>mj.
            Inr (store acc (A[i := vadd ai (vdiv (vscale (fmul G mj) r) (fcube dist))]) s)))))))
      else Inr s)"

text \<open>\<^verbatim>\<open>compute_accelerations(pos)\<close>, returning the reference of the new array \<^verbatim>\<open>acc\<close>.\<close>

definition compute_accelerations_h :: "ref \<Rightarrow> heap \<Rightarrow> fault + ref \<times> heap" where
  "compute_accelerations_h pos s =
     bind_err (deref s pos) (\<lambda>P.
       case alloc (zeros_like P) s of (acc, s1) \<Rightarrow>
         bind_err
           (for_each (range_py 3) (\<lambda>i. for_each (range_py 3) (\<lambda>j. accumulate_h pos acc i j)) s1)
           (\<lambda>s2. Inr (acc, s2)))"

text \<open>The body of the main loop; the two \<^verbatim>\<open>+=\<close> write into the arrays they name.\<close>

definition step_h :: "nat \<Rightarrow> heap \<Rightarrow> fault + heap" where
  "step_h t s =
     bind_err (deref s positions_ref) (\<lambda>P.
     bind_err (raise (record_positions t P (h_trajectories s))) (\<lambda>traj.
       let s1 = s\<lparr>h_trajectories := traj\<rparr> in
       bind_err (compute_accelerations_h positions_ref s1) (\<lambda>(acc, s2).
       bind_err (deref s2 velocities_ref) (\<lambda>V.
       bind_err (deref s2 acc) (\<lambda>A.
       bind_err (raise (iadd V (times_scalar A (h_dt s2)))) (\<lambda>V'.
         let s3 = store velocities_ref V' s2 in
         bind_err (deref s3 positions_ref) (\<lambda>P'.
         bind_err (deref s3 velocities_ref) (\<lambda>V''.
         bind_err (raise (iadd P' (times_scalar V'' (h_dt s3)))) (\<lambda>P''.
           Inr (store positions_ref P'' s3))))))))))"

definition initial_heap ::
  "fl list \<Rightarrow> fl vec3 list \<Rightarrow> fl vec3 list \<Rightarrow> fl \<Rightarrow> fl vec3 list list \<Rightarrow> heap" where
  "initial_heap ms ps vs h traj =
     \<lparr>h_masses = ms, h_dt = h,
      h_arrays = [positions_ref \<mapsto> ps, velocities_ref \<mapsto> vs],
      h_trajectories = traj, h_fresh = 2\<rparr>"

definition simulate_h ::
  "fl list \<Rightarrow> fl vec3 list \<Rightarrow> fl vec3 list \<Rightarrow> fl \<Rightarrow> int \<Rightarrow> fault + heap" where
  "simulate_h ms ps vs h steps =
     bind_err (raise (zeros_3d steps)) (\<lambda>traj.
       for_each (range_py steps) step_h (initial_heap ms ps vs h traj))"

text \<open>The values that the names of the script denote in a store.\<close>

definition world_of :: "heap \<Rightarrow> world" where
  "world_of s =
     \<lparr>masses = h_masses s, positions = the (h_arrays s positions_ref),
      velocities = the (h_arrays s velocities_ref), dt = h_dt s,
      trajectories = h_trajectories s\<rparr>"

text \<open>
  The stores that arise in a run: both names are bound, and no array lies at or beyond
  the next free reference.
\<close>

definition well_formed :: "heap \<Rightarrow> bool" where
  "well_formed s \<longleftrightarrow>
     positions_ref < h_fresh s \<and> velocities_ref < h_fresh s \<and>
     h_arrays s positions_ref \<noteq> None \<and> h_arrays s velocities_ref \<noteq> None \<and>
     (\<forall>r. h_fresh s \<le> r \<longrightarrow> h_arrays s r = None)"

section \<open>Basic facts\<close>

lemma range_py_3: "range_py 3 = [0, 1, 2]"
  by (simp add: range_py_def upt_rec)

lemma bind_err_simps [simp]:
  "bind_err (Inl e) f = Inl e" "bind_err (Inr v) f = f v"
  by (simp_all add: bind_err_def)

lemma index_Cons_simps [simp]:
  "index (x # xs) 0 = Inr x"
  "index (x # xs) (Suc n) = index xs n"
  "index [] n = Inl IndexError"
  by (simp_all add: index_def)

lemma length3E:
  assumes "length xs = 3"
  obtains a b c where "xs = [a, b, c]"
  using assms by (auto simp: length_Suc_conv numeral_3_eq_3)

lemma sumsq3_eq_0_iff: "(a::real)\<^sup>2 + b\<^sup>2 + c\<^sup>2 = 0 \<longleftrightarrow> a = 0 \<and> b = 0 \<and> c = 0"
proof -
  have "a\<^sup>2 + b\<^sup>2 + c\<^sup>2 = 0 \<longleftrightarrow> a\<^sup>2 + b\<^sup>2 = 0 \<and> c\<^sup>2 = 0"
    by (rule add_nonneg_eq_0_iff) simp_all
  then show ?thesis by (simp add: sum_power2_eq_zero_iff)
qed

lemma distance_eq_0_iff: "distance p q = 0 \<longleftrightarrow> p = q"
  by (cases p; cases q) (simp add: distance_def sumsq3_eq_0_iff)


subsection \<open>The operations on finite values\<close>

lemma norm_vsub_Fin:
  "norm_vec (vsub (map_vec3 Fin p) (map_vec3 Fin q)) = Fin (distance p q)"
  by (cases p; cases q) (simp add: fsub_def distance_def power2_eq_square not_less)

lemma pair_term_Fin:
  assumes "q \<noteq> p"
  shows "vdiv (vscale (fmul G (Fin m)) (vsub (map_vec3 Fin q) (map_vec3 Fin p)))
           (fcube (norm_vec (vsub (map_vec3 Fin q) (map_vec3 Fin p)))) =
         map_vec3 Fin (pull m q p)"
proof -
  have d: "distance q p \<noteq> 0" using assms by (simp add: distance_eq_0_iff)
  show ?thesis
    unfolding norm_vsub_Fin
    using d by (cases p; cases q) (simp add: pull_def fcube_def G_def fsub_def power3_eq_cube)
qed

lemma vadd_Fin:
  "vadd (map_vec3 Fin a) (map_vec3 Fin b) =
   map_vec3 Fin (Vec3 (vx a + vx b) (vy a + vy b) (vz a + vz b))"
  by (cases a; cases b) simp

lemma vzero_Fin: "vzero = map_vec3 Fin (Vec3 0 0 0)"
  by (simp add: vzero_def)

subsection \<open>Three bodies at distinct finite positions\<close>

lemma compute_3_Fin:
  assumes "p0 \<noteq> p1" "p0 \<noteq> p2" "p1 \<noteq> p2"
  shows "compute_accelerations [Fin m0, Fin m1, Fin m2]
           [map_vec3 Fin p0, map_vec3 Fin p1, map_vec3 Fin p2] =
         Inr (map (map_vec3 Fin)
           [Vec3 (vx (pull m1 p1 p0) + vx (pull m2 p2 p0))
                 (vy (pull m1 p1 p0) + vy (pull m2 p2 p0))
                 (vz (pull m1 p1 p0) + vz (pull m2 p2 p0)),
            Vec3 (vx (pull m0 p0 p1) + vx (pull m2 p2 p1))
                 (vy (pull m0 p0 p1) + vy (pull m2 p2 p1))
                 (vz (pull m0 p0 p1) + vz (pull m2 p2 p1)),
            Vec3 (vx (pull m0 p0 p2) + vx (pull m1 p1 p2))
                 (vy (pull m0 p0 p2) + vy (pull m1 p1 p2))
                 (vz (pull m0 p0 p2) + vz (pull m1 p1 p2))])"
  using assms
  by (simp add: compute_accelerations_def range_py_3 zeros_like_def accumulate_def Let_def
     pair_term_Fin vzero_Fin vadd_Fin numeral_2_eq_2 del: vec3.map)

lemma newton_component_3:
  "newton_component c [m0, m1, m2] [p0, p1, p2] 0 =
     G_real * (m1 * (c p1 - c p0) / distance p1 p0 ^ 3 + m2 * (c p2 - c p0) / distance p2 p0 ^ 3)"
  "newton_component c [m0, m1, m2] [p0, p1, p2] (Suc 0) =
     G_real * (m0 * (c p0 - c p1) / distance p0 p1 ^ 3 + m2 * (c p2 - c p1) / distance p2 p1 ^ 3)"
  "newton_component c [m0, m1, m2] [p0, p1, p2] 2 =
     G_real * (m0 * (c p0 - c p2) / distance p0 p2 ^ 3 + m1 * (c p1 - c p2) / distance p1 p2 ^ 3)"
proof -
  have s: "{0..<length [p0, p1, p2]} - {0} = {1, 2}"
    "{0..<length [p0, p1, p2]} - {Suc 0} = {0, 2}"
    "{0..<length [p0, p1, p2]} - {2} = {0, 1}"
    by auto
  show "newton_component c [m0, m1, m2] [p0, p1, p2] 0 =
     G_real * (m1 * (c p1 - c p0) / distance p1 p0 ^ 3 + m2 * (c p2 - c p0) / distance p2 p0 ^ 3)"
    unfolding newton_component_def s by simp
  show "newton_component c [m0, m1, m2] [p0, p1, p2] (Suc 0) =
     G_real * (m0 * (c p0 - c p1) / distance p0 p1 ^ 3 + m2 * (c p2 - c p1) / distance p2 p1 ^ 3)"
    unfolding newton_component_def s by simp
  show "newton_component c [m0, m1, m2] [p0, p1, p2] 2 =
     G_real * (m0 * (c p0 - c p2) / distance p0 p2 ^ 3 + m1 * (c p1 - c p2) / distance p1 p2 ^ 3)"
    unfolding newton_component_def s by simp
qed

text \<open>
  In exact arithmetic, at finite positions whose pairwise distances are nonzero, the sums
  that the code accumulates are the values of the formula of the specification.
\<close>

lemma exact_newton_sum:
  assumes "length mass = 3" and "length pos = 3"
    and "\<forall>i<3. \<forall>j<3. i \<noteq> j \<longrightarrow> distance (pos ! j) (pos ! i) \<noteq> 0"
  shows "compute_accelerations (map Fin mass) (map (map_vec3 Fin) pos) =
         Inr (map (\<lambda>i. map_vec3 Fin (newton_acceleration mass pos i)) [0, 1, 2])"
proof -
  obtain m0 m1 m2 where m: "mass = [m0, m1, m2]"
    using assms(1) by (rule length3E)
  obtain p0 p1 p2 where p: "pos = [p0, p1, p2]"
    using assms(2) by (rule length3E)
  have "distance (pos ! 1) (pos ! 0) \<noteq> 0" "distance (pos ! 2) (pos ! 0) \<noteq> 0"
    "distance (pos ! 2) (pos ! 1) \<noteq> 0"
    using assms(3) by simp_all
  then have ne: "p0 \<noteq> p1" "p0 \<noteq> p2" "p1 \<noteq> p2"
    by (auto simp: p distance_eq_0_iff)
  show ?thesis
    unfolding m p
    by (simp add: compute_3_Fin [OF ne] newton_acceleration_def newton_component_3 pull_def
        algebra_simps add_divide_distrib)
qed

section \<open>The loop body on arrays of three rows\<close>

lemma length_ge3E:
  assumes "3 \<le> length xs"
  obtains a b c ys where "xs = a # b # c # ys"
proof -
  from assms obtain a xs1 where 1: "xs = a # xs1" by (cases xs) auto
  with assms obtain b xs2 where 2: "xs1 = b # xs2" by (cases xs1) auto
  with 1 assms obtain c xs3 where 3: "xs2 = c # xs3" by (cases xs2) auto
  from 1 2 3 that show thesis by blast
qed

text \<open>With three rows and three masses no index is out of range, whatever the values.\<close>

lemma compute_accelerations_total:
  assumes "3 \<le> length ms" "3 \<le> length pos"
  shows "\<exists>acc. compute_accelerations ms pos = Inr acc \<and> length acc = length pos"
proof -
  obtain m0 m1 m2 ms' where m: "ms = m0 # m1 # m2 # ms'"
    using assms(1) by (rule length_ge3E)
  obtain p0 p1 p2 ps' where p: "pos = p0 # p1 # p2 # ps'"
    using assms(2) by (rule length_ge3E)
  show ?thesis
    unfolding m p
    by (simp add: compute_accelerations_def range_py_3 zeros_like_def accumulate_def Let_def
        numeral_2_eq_2)
qed

lemma record_positions_3:
  assumes "length pos = 3" "length traj = 3" "list_all (\<lambda>row. length row = n) traj" "t < n"
  shows "record_positions t pos traj = Inr (map2 (\<lambda>row p. row[t := p]) traj pos)"
proof -
  have "list_all (\<lambda>row. t < length row) traj"
    using assms(3,4) by (simp add: list_all_iff)
  then show ?thesis using assms(1,2) by (simp add: record_positions_def)
qed

lemma iadd_same_length:
  "length b = length a \<Longrightarrow> iadd a b = Inr (map2 vadd a b)"
  by (simp add: iadd_def)

lemma step_well_shaped:
  assumes "well_shaped n w" "t < n"
  shows "\<exists>acc. compute_accelerations (masses w) (positions w) = Inr acc \<and> length acc = 3 \<and>
     step t w = Inr (w\<lparr>trajectories := map2 (\<lambda>row p. row[t := p]) (trajectories w) (positions w),
        velocities := map2 vadd (velocities w) (times_scalar acc (dt w)),
        positions := map2 vadd (positions w)
          (times_scalar (map2 vadd (velocities w) (times_scalar acc (dt w))) (dt w))\<rparr>)"
proof -
  from assms(1) have sh: "3 \<le> length (masses w)" "length (positions w) = 3"
    "length (velocities w) = 3" "length (trajectories w) = 3"
    "list_all (\<lambda>row. length row = n) (trajectories w)"
    by (simp_all add: well_shaped_def)
  obtain acc where acc: "compute_accelerations (masses w) (positions w) = Inr acc"
    "length acc = 3"
    using compute_accelerations_total [of "masses w" "positions w"] sh(1,2) by auto
  have r: "record_positions t (positions w) (trajectories w) =
      Inr (map2 (\<lambda>row p. row[t := p]) (trajectories w) (positions w))"
    using sh(2,4,5) assms(2) by (rule record_positions_3)
  have v: "iadd (velocities w) (times_scalar acc (dt w)) =
      Inr (map2 vadd (velocities w) (times_scalar acc (dt w)))"
    by (rule iadd_same_length) (simp add: times_scalar_def acc(2) sh(3))
  have p: "iadd (positions w)
        (times_scalar (map2 vadd (velocities w) (times_scalar acc (dt w))) (dt w)) =
      Inr (map2 vadd (positions w)
        (times_scalar (map2 vadd (velocities w) (times_scalar acc (dt w))) (dt w)))"
    by (rule iadd_same_length) (simp add: times_scalar_def acc(2) sh(2,3))
  show ?thesis
    using acc by (simp add: step_def r v p Let_def)
qed

lemma step_keeps_shape:
  assumes "well_shaped n w" "t < n"
  shows "\<exists>w'. step t w = Inr w' \<and> well_shaped n w' \<and> masses w' = masses w \<and> dt w' = dt w \<and>
     (\<forall>i<3. trajectories w' ! i = (trajectories w ! i)[t := positions w ! i])"
proof -
  from assms(1) have sh: "3 \<le> length (masses w)" "length (positions w) = 3"
    "length (velocities w) = 3" "length (trajectories w) = 3"
    "list_all (\<lambda>row. length row = n) (trajectories w)"
    by (simp_all add: well_shaped_def)
  from step_well_shaped [OF assms] obtain acc w' where
    acc: "length acc = 3" and st: "step t w = Inr w'"
    and w': "w' = w\<lparr>trajectories := map2 (\<lambda>row p. row[t := p]) (trajectories w) (positions w),
        velocities := map2 vadd (velocities w) (times_scalar acc (dt w)),
        positions := map2 vadd (positions w)
          (times_scalar (map2 vadd (velocities w) (times_scalar acc (dt w))) (dt w))\<rparr>"
    by blast
  have "well_shaped n w'"
    using sh acc by (auto simp: w' well_shaped_def times_scalar_def list_all_length)
  moreover have "\<forall>i<3. trajectories w' ! i = (trajectories w ! i)[t := positions w ! i]"
    using sh by (simp add: w')
  ultimately show ?thesis using st by (simp add: w')
qed

section \<open>Loops\<close>

text \<open>A loop whose body keeps an invariant and never raises under it runs to its end.\<close>

lemma for_each_invariant:
  assumes "\<And>k s. k \<in> set ks \<Longrightarrow> I s \<Longrightarrow> \<exists>s'. body k s = Inr s' \<and> I s'"
    and "I s"
  shows "\<exists>s'. for_each ks body s = Inr s' \<and> I s'"
  using assms
proof (induction ks arbitrary: s)
  case Nil
  then show ?case by simp
next
  case (Cons k ks)
  from Cons.prems obtain s1 where s1: "body k s = Inr s1" "I s1"
    by (meson list.set_intros(1))
  have "\<exists>s'. for_each ks body s1 = Inr s' \<and> I s'"
    by (rule Cons.IH) (use Cons.prems(1) s1(2) in auto)
  with s1(1) show ?case by simp
qed

lemma initial_world_well_shaped:
  assumes "3 \<le> length ms" "length ps = 3" "length vs = 3"
  shows "well_shaped n (initial_world ms ps vs h (replicate 3 (replicate n vzero)))"
  using assms by (simp add: initial_world_def well_shaped_def list_all_length)

section \<open>Bodies at the same position\<close>

lemma fsub_self: "fsub a a = Fin 0 \<or> fsub a a = NaN"
  by (cases a) (simp_all add: fsub_def)

lemma fmul_zero_or_nan: "fmul k (Fin 0) = Fin 0 \<or> fmul k (Fin 0) = NaN"
  by (cases k) (simp_all add: signed_inf_def)

lemma fdiv_by_zero_or_nan:
  assumes "a = Fin 0 \<or> a = NaN" "d = Fin 0 \<or> d = NaN"
  shows "fdiv (fmul k a) d = NaN"
proof (cases "d = NaN")
  case True
  then show ?thesis by (cases "fmul k a") simp_all
next
  case False
  with assms(2) have d: "d = Fin 0" by simp
  from assms(1) show ?thesis
  proof
    assume "a = Fin 0"
    with fmul_zero_or_nan [of k] d show ?thesis by (auto simp: signed_inf_def)
  next
    assume "a = NaN"
    then show ?thesis by (cases k) simp_all
  qed
qed

lemma norm_zero_or_nan:
  assumes "x = Fin 0 \<or> x = NaN" "y = Fin 0 \<or> y = NaN" "z = Fin 0 \<or> z = NaN"
  shows "fcube (norm_vec (Vec3 x y z)) = Fin 0 \<or> fcube (norm_vec (Vec3 x y z)) = NaN"
  using assms by (auto simp: fcube_def)

lemma coincident_term:
  "vdiv (vscale k (vsub p p)) (fcube (norm_vec (vsub p p))) = vnan"
proof (cases p)
  case (Vec3 a b c)
  let ?r = "Vec3 (fsub a a) (fsub b b) (fsub c c)"
  have d: "fcube (norm_vec ?r) = Fin 0 \<or> fcube (norm_vec ?r) = NaN"
    by (rule norm_zero_or_nan) (rule fsub_self)+
  show ?thesis
    unfolding Vec3 vsub.simps vscale.simps vdiv.simps vnan_def
    by (simp only: fdiv_by_zero_or_nan [OF fsub_self d])
qed

lemma fadd_NaN [simp]: "fadd a NaN = NaN" "fadd NaN a = NaN"
  by (cases a; simp)+

lemma vadd_vnan [simp]: "vadd a vnan = vnan" "vadd vnan a = vnan"
  by (cases a; simp add: vnan_def)+

lemma vtimes_vnan [simp]: "vtimes vnan k = vnan"
  by (simp add: vnan_def)

lemma compute_coincident_3:
  assumes "i < 3" "j < 3" "i \<noteq> j" "[p0, p1, p2] ! i = [p0, p1, p2] ! j"
  shows "\<exists>acc. compute_accelerations (m0 # m1 # m2 # ms) [p0, p1, p2] = Inr acc \<and>
     length acc = 3 \<and> acc ! i = vnan"
proof -
  have i: "i = 0 \<or> i = 1 \<or> i = 2" and j: "j = 0 \<or> j = 1 \<or> j = 2"
    using assms(1,2) by auto
  from i j assms(3,4) show ?thesis
    by (elim disjE)
      (simp_all add: compute_accelerations_def range_py_3 zeros_like_def accumulate_def Let_def
        numeral_2_eq_2 coincident_term)
qed

lemma range_py_2: "range_py 2 = [0, 1]"
  by (simp add: range_py_def upt_rec numeral_2_eq_2)

lemma range_py_1: "range_py 1 = [0]"
  by (simp add: range_py_def)

section \<open>Which inputs the simulation accepts\<close>

lemma index_error: "index xs i = Inl e \<Longrightarrow> e = IndexError"
  by (simp add: index_def split: if_splits)

lemma short_list_cases:
  assumes "length xs < 3"
  obtains "xs = []" | a where "xs = [a]" | a b where "xs = [a, b]"
proof (cases xs)
  case Nil
  then show ?thesis using that(1) by simp
next
  case (Cons a ys)
  note 1 = this
  show ?thesis
  proof (cases ys)
    case Nil
    with 1 show ?thesis using that(2) by simp
  next
    case (Cons b zs)
    with 1 assms have "zs = []" by simp
    with 1 Cons show ?thesis using that(3) by simp
  qed
qed

lemma compute_accelerations_short_pos:
  assumes "length pos < 3"
  shows "compute_accelerations ms pos = Inl IndexError"
proof -
  from assms show ?thesis
  proof (cases pos rule: short_list_cases)
    case 1
    then show ?thesis
      by (simp add: compute_accelerations_def range_py_3 zeros_like_def accumulate_def)
  next
    case 2
    then show ?thesis
      by (simp add: compute_accelerations_def range_py_3 zeros_like_def accumulate_def)
  next
    case 3
    then show ?thesis
      by (cases "index ms 1")
        (auto simp: compute_accelerations_def range_py_3 zeros_like_def accumulate_def Let_def
          numeral_2_eq_2 dest: index_error)
  qed
qed

lemma compute_accelerations_short_masses:
  assumes "length ms < 3" "length pos = 3"
  shows "compute_accelerations ms pos = Inl IndexError"
proof -
  obtain p0 p1 p2 where p: "pos = [p0, p1, p2]"
    using assms(2) by (rule length3E)
  from assms(1) show ?thesis
    by (cases ms rule: short_list_cases)
      (simp_all add: p compute_accelerations_def range_py_3 zeros_like_def accumulate_def Let_def
        numeral_2_eq_2)
qed

text \<open>Arrays of any other shape make the loop body raise.\<close>

lemma step_bad_shape:
  assumes "length (trajectories w) = 3" "list_all (\<lambda>row. length row = n) (trajectories w)"
    and "t < n"
    and "\<not> (3 \<le> length (masses w) \<and> length (positions w) = 3 \<and> length (velocities w) = 3)"
  shows "\<exists>e. step t w = Inl e"
proof -
  have rows: "list_all (\<lambda>row. t < length row) (trajectories w)"
    using assms(2,3) by (simp add: list_all_iff)
  show ?thesis
  proof (cases "length (positions w) = 3")
    case False
    note ps = this
    show ?thesis
    proof (cases "length (positions w) = 1")
      case True
      then have "compute_accelerations (masses w) (positions w) = Inl IndexError"
        by (simp add: compute_accelerations_short_pos)
      then show ?thesis
        using True rows assms(1) by (simp add: step_def record_positions_def Let_def)
    next
      case False
      then show ?thesis
        using ps rows assms(1) by (simp add: step_def record_positions_def)
    qed
  next
    case True
    note ps = this
    have rec: "record_positions t (positions w) (trajectories w) =
        Inr (map2 (\<lambda>row p. row[t := p]) (trajectories w) (positions w))"
      using ps assms(1,2,3) by (rule record_positions_3)
    show ?thesis
    proof (cases "3 \<le> length (masses w)")
      case False
      then have "compute_accelerations (masses w) (positions w) = Inl IndexError"
        using ps by (simp add: compute_accelerations_short_masses)
      then show ?thesis
        by (simp add: step_def rec Let_def)
    next
      case True
      with ps assms(4) have vs: "length (velocities w) \<noteq> 3" by simp
      obtain acc where acc: "compute_accelerations (masses w) (positions w) = Inr acc"
        "length acc = 3"
        using compute_accelerations_total [of "masses w" "positions w"] True ps by auto
      have "iadd (velocities w) (times_scalar acc (dt w)) = Inl ValueError"
        using vs acc(2) by (simp add: iadd_def times_scalar_def)
      then show ?thesis
        by (simp add: step_def rec acc(1) Let_def)
    qed
  qed
qed

lemma simulate_unfold:
  assumes "0 \<le> steps"
  shows "simulate ms ps vs h steps =
     for_each [0..<nat steps] step
       (initial_world ms ps vs h (replicate 3 (replicate (nat steps) vzero)))"
  using assms by (simp add: simulate_def zeros_3d_def range_py_def)

lemma simulate_negative: "steps < 0 \<Longrightarrow> simulate ms ps vs h steps = Inl ValueError"
  by (simp add: simulate_def zeros_3d_def)

lemma simulate_zero:
  "simulate ms ps vs h 0 = Inr (initial_world ms ps vs h (replicate 3 []))"
  by (simp add: simulate_def zeros_3d_def range_py_def)

lemma simulate_well_shaped:
  assumes "0 \<le> steps" "3 \<le> length ms" "length ps = 3" "length vs = 3"
  shows "\<exists>w. simulate ms ps vs h steps = Inr w \<and> well_shaped (nat steps) w"
proof -
  have "\<exists>w. for_each [0..<nat steps] step
       (initial_world ms ps vs h (replicate 3 (replicate (nat steps) vzero))) = Inr w \<and>
       well_shaped (nat steps) w"
  proof (rule for_each_invariant [where I = "well_shaped (nat steps)"])
    show "well_shaped (nat steps)
        (initial_world ms ps vs h (replicate 3 (replicate (nat steps) vzero)))"
      using assms(2-4) by (rule initial_world_well_shaped)
  next
    fix k w assume "k \<in> set [0..<nat steps]" "well_shaped (nat steps) w"
    then show "\<exists>s'. step k w = Inr s' \<and> well_shaped (nat steps) s'"
      using step_keeps_shape [of "nat steps" w k] by auto
  qed
  then show ?thesis by (simp add: simulate_unfold [OF assms(1)])
qed

lemma simulate_bad_shape:
  assumes "0 < steps"
    and "\<not> (3 \<le> length ms \<and> length ps = 3 \<and> length vs = 3)"
  shows "\<exists>e. step 0 (initial_world ms ps vs h (replicate 3 (replicate (nat steps) vzero))) = Inl e \<and>
     simulate ms ps vs h steps = Inl e"
proof -
  let ?w = "initial_world ms ps vs h (replicate 3 (replicate (nat steps) vzero))"
  have n: "0 < nat steps" using assms(1) by simp
  have "\<exists>e. step 0 ?w = Inl e"
  proof (rule step_bad_shape [where n = "nat steps"])
    show "length (trajectories ?w) = 3" by (simp add: initial_world_def)
    show "list_all (\<lambda>row. length row = nat steps) (trajectories ?w)"
      by (simp add: initial_world_def list_all_length)
    show "0 < nat steps" by (rule n)
    show "\<not> (3 \<le> length (masses ?w) \<and> length (positions ?w) = 3 \<and> length (velocities ?w) = 3)"
      using assms(2) by (simp add: initial_world_def)
  qed
  then obtain e where e: "step 0 ?w = Inl e" by blast
  have "[0..<nat steps] = 0 # [1..<nat steps]"
    using n by (simp add: upt_rec)
  then have "simulate ms ps vs h steps = Inl e"
    using assms(1) e by (simp add: simulate_unfold)
  with e show ?thesis by blast
qed

section \<open>Antisymmetry of the pairwise terms\<close>





section \<open>Only the first three rows are read\<close>

lemma compute_first_three:
  assumes "3 \<le> length ms" "3 \<le> length pos"
  shows "\<exists>a. compute_accelerations (take 3 ms) (take 3 pos) = Inr a \<and> length a = 3 \<and>
     compute_accelerations ms pos = Inr (a @ replicate (length pos - 3) vzero)"
proof -
  obtain m0 m1 m2 ms' where m: "ms = m0 # m1 # m2 # ms'"
    using assms(1) by (rule length_ge3E)
  obtain p0 p1 p2 ps' where p: "pos = p0 # p1 # p2 # ps'"
    using assms(2) by (rule length_ge3E)
  show ?thesis
    unfolding m p
    by (simp add: compute_accelerations_def range_py_3 zeros_like_def accumulate_def Let_def
        numeral_2_eq_2 numeral_3_eq_3)
qed

lemma compute_take_masses:
  assumes "3 \<le> length ms"
  shows "compute_accelerations (take 3 ms) pos = compute_accelerations ms pos"
proof (cases "length pos < 3")
  case True
  then show ?thesis by (simp add: compute_accelerations_short_pos)
next
  case False
  then have len: "3 \<le> length pos" by simp
  obtain m0 m1 m2 ms' where m: "ms = m0 # m1 # m2 # ms'"
    using assms(1) by (rule length_ge3E)
  obtain p0 p1 p2 ps' where p: "pos = p0 # p1 # p2 # ps'"
    using len by (rule length_ge3E)
  show ?thesis
    unfolding m p
    by (simp add: compute_accelerations_def range_py_3 zeros_like_def accumulate_def Let_def
        numeral_2_eq_2 numeral_3_eq_3)
qed

lemma step_masses:
  assumes "step t w = Inr w'"
  shows "masses w' = masses w" and "dt w' = dt w"
    and "length (trajectories w') = length (trajectories w)"
  using assms
  by (auto simp: step_def bind_err_def Let_def record_positions_def split: sum.splits if_splits)

lemma step_truncate_masses:
  assumes "3 \<le> length (masses w)"
  shows "step t (truncate_masses w) = map_sum id truncate_masses (step t w)"
  using assms
  by (simp add: step_def truncate_masses_def compute_take_masses bind_err_def Let_def
      split: sum.splits)

lemma for_each_truncate_masses:
  assumes "3 \<le> length (masses w)"
  shows "for_each ks step (truncate_masses w) = map_sum id truncate_masses (for_each ks step w)"
  using assms
proof (induction ks arbitrary: w)
  case Nil
  then show ?case by simp
next
  case (Cons k ks)
  show ?case
  proof (cases "step k w")
    case (Inl e)
    then show ?thesis by (simp add: step_truncate_masses [OF Cons.prems])
  next
    case (Inr w1)
    then have "3 \<le> length (masses w1)"
      using Cons.prems step_masses(1) [OF Inr] by simp
    then show ?thesis
      using Inr by (simp add: step_truncate_masses [OF Cons.prems] Cons.IH)
  qed
qed

lemma for_each_step_trajectories:
  assumes "for_each ks step w = Inr w'"
  shows "length (trajectories w') = length (trajectories w)"
  using assms
proof (induction ks arbitrary: w)
  case Nil
  then show ?case by simp
next
  case (Cons k ks)
  then obtain w1 where w1: "step k w = Inr w1" "for_each ks step w1 = Inr w'"
    by (auto simp: bind_err_def split: sum.splits)
  then show ?case using Cons.IH [OF w1(2)] step_masses(3) [OF w1(1)] by simp
qed

lemma simulate_truncate_masses:
  assumes "3 \<le> length ms"
  shows "simulate (take 3 ms) ps vs h steps = map_sum id truncate_masses (simulate ms ps vs h steps)"
proof (cases "steps < 0")
  case True
  then show ?thesis by (simp add: simulate_negative)
next
  case False
  then have s: "0 \<le> steps" by simp
  let ?traj = "replicate 3 (replicate (nat steps) vzero)"
  have t: "initial_world (take 3 ms) ps vs h ?traj = truncate_masses (initial_world ms ps vs h ?traj)"
    by (simp add: initial_world_def truncate_masses_def)
  have "3 \<le> length (masses (initial_world ms ps vs h ?traj))"
    using assms by (simp add: initial_world_def)
  then show ?thesis
    by (simp add: simulate_unfold [OF s] t for_each_truncate_masses)
qed

lemma simulate_trajectories:
  assumes "simulate ms ps vs h steps = Inr w"
  shows "length (trajectories w) = 3"
proof -
  have s: "0 \<le> steps"
    using assms simulate_negative [of steps ms ps vs h] by (cases "steps < 0") simp_all
  from assms have "for_each [0..<nat steps] step
      (initial_world ms ps vs h (replicate 3 (replicate (nat steps) vzero))) = Inr w"
    by (simp add: simulate_unfold [OF s])
  from for_each_step_trajectories [OF this] show ?thesis
    by (simp add: initial_world_def)
qed

section \<open>The store model computes what the value model computes\<close>

lemma raise_simps [simp]: "raise (Inl e) = Inl (Raised e)" "raise (Inr v) = Inr v"
  by (simp_all add: raise_def)

lemma deref_Some [simp]: "h_arrays s r = Some a \<Longrightarrow> deref s r = Inr a"
  by (simp add: deref_def)

lemma store_simps [simp]:
  "h_masses (store r a s) = h_masses s" "h_dt (store r a s) = h_dt s"
  "h_trajectories (store r a s) = h_trajectories s" "h_fresh (store r a s) = h_fresh s"
  "h_arrays (store r a s) = (h_arrays s)(r \<mapsto> a)"
  by (simp_all add: store_def)

lemma store_store [simp]: "store r b (store r a s) = store r b s"
  by (simp add: store_def)

lemma store_same: "h_arrays s r = Some a \<Longrightarrow> store r a s = s"
  by (simp add: store_def map_upd_triv)

text \<open>One pass of the inner statement writes the accumulator only.\<close>

lemma accumulate_h_pure:
  assumes "h_arrays s pos = Some P" "h_arrays s acc = Some A" "pos \<noteq> acc"
  shows "accumulate_h pos acc i j s =
     map_sum Raised (\<lambda>A'. store acc A' s) (accumulate (h_masses s) P i j A)"
  using assms
  by (cases "index P j"; cases "index P i"; cases "index A i"; cases "index (h_masses s) j")
    (simp_all add: accumulate_h_def accumulate_def Let_def store_same)

lemma for_each_accumulate_h:
  assumes "h_arrays s pos = Some P" "h_arrays s acc = Some A" "pos \<noteq> acc"
  shows "for_each js (\<lambda>j. accumulate_h pos acc i j) s =
     map_sum Raised (\<lambda>A'. store acc A' s) (for_each js (\<lambda>j. accumulate (h_masses s) P i j) A)"
  using assms
proof (induction js arbitrary: s A)
  case Nil
  then show ?case by (simp add: store_same)
next
  case (Cons j js)
  show ?case
  proof (cases "accumulate (h_masses s) P i j A")
    case (Inl e)
    then show ?thesis by (simp add: accumulate_h_pure [OF Cons.prems])
  next
    case (Inr A1)
    have "for_each js (\<lambda>j. accumulate_h pos acc i j) (store acc A1 s) =
        map_sum Raised (\<lambda>A'. store acc A' (store acc A1 s))
          (for_each js (\<lambda>j. accumulate (h_masses (store acc A1 s)) P i j) A1)"
      by (rule Cons.IH) (use Cons.prems in simp_all)
    then show ?thesis
      using Inr by (simp add: accumulate_h_pure [OF Cons.prems])
  qed
qed

lemma for_each_rows_h:
  assumes "h_arrays s pos = Some P" "h_arrays s acc = Some A" "pos \<noteq> acc"
  shows "for_each is (\<lambda>i. for_each js (\<lambda>j. accumulate_h pos acc i j)) s =
     map_sum Raised (\<lambda>A'. store acc A' s)
       (for_each is (\<lambda>i. for_each js (\<lambda>j. accumulate (h_masses s) P i j)) A)"
  using assms
proof (induction "is" arbitrary: s A)
  case Nil
  then show ?case by (simp add: store_same)
next
  case (Cons i "is")
  show ?case
  proof (cases "for_each js (\<lambda>j. accumulate (h_masses s) P i j) A")
    case (Inl e)
    then show ?thesis by (simp add: for_each_accumulate_h [OF Cons.prems])
  next
    case (Inr A1)
    have "for_each is (\<lambda>i. for_each js (\<lambda>j. accumulate_h pos acc i j)) (store acc A1 s) =
        map_sum Raised (\<lambda>A'. store acc A' (store acc A1 s))
          (for_each is (\<lambda>i. for_each js (\<lambda>j. accumulate (h_masses (store acc A1 s)) P i j)) A1)"
      by (rule Cons.IH) (use Cons.prems in simp_all)
    then show ?thesis
      using Inr by (simp add: for_each_accumulate_h [OF Cons.prems])
  qed
qed

lemma compute_accelerations_h_pure:
  assumes "h_arrays s pos = Some P" "h_arrays s (h_fresh s) = None"
  shows "compute_accelerations_h pos s =
     map_sum Raised (\<lambda>a. (h_fresh s, (store (h_fresh s) a s)\<lparr>h_fresh := Suc (h_fresh s)\<rparr>))
       (compute_accelerations (h_masses s) P)"
proof -
  let ?acc = "h_fresh s"
  let ?s1 = "(store ?acc (zeros_like P) s)\<lparr>h_fresh := Suc ?acc\<rparr>"
  have ne: "pos \<noteq> ?acc" using assms by auto
  have 1: "h_arrays ?s1 pos = Some P" "h_arrays ?s1 ?acc = Some (zeros_like P)"
    using assms(1) ne by simp_all
  have st: "store ?acc a ?s1 = (store ?acc a s)\<lparr>h_fresh := Suc ?acc\<rparr>" for a
    by (simp add: store_def)
  show ?thesis
    using assms(1)
    by (cases "compute_accelerations (h_masses s) P")
      (simp_all add: compute_accelerations_h_def alloc_def for_each_rows_h [OF 1 ne]
        compute_accelerations_def st)
qed

lemma step_h_refines:
  assumes "well_formed s"
  shows "case step t (world_of s) of
      Inl e \<Rightarrow> step_h t s = Inl (Raised e)
    | Inr w' \<Rightarrow> \<exists>s'. step_h t s = Inr s' \<and> world_of s' = w' \<and> well_formed s' \<and>
        h_masses s' = h_masses s"
proof -
  from assms obtain P V where P: "h_arrays s positions_ref = Some P"
    and V: "h_arrays s velocities_ref = Some V"
    and lt: "positions_ref < h_fresh s" "velocities_ref < h_fresh s"
    and free: "\<And>r. h_fresh s \<le> r \<Longrightarrow> h_arrays s r = None"
    by (auto simp: well_formed_def)
  have w: "positions (world_of s) = P" "velocities (world_of s) = V"
    "masses (world_of s) = h_masses s" "dt (world_of s) = h_dt s"
    "trajectories (world_of s) = h_trajectories s"
    by (simp_all add: world_of_def P V)
  have ne: "positions_ref \<noteq> velocities_ref"
    by (simp add: positions_ref_def velocities_ref_def)
  show ?thesis
  proof (cases "record_positions t P (h_trajectories s)")
    case (Inl e)
    then show ?thesis by (simp add: step_def step_h_def w P)
  next
    case (Inr traj)
    let ?s1 = "s\<lparr>h_trajectories := traj\<rparr>"
    have c: "compute_accelerations_h positions_ref ?s1 =
        map_sum Raised (\<lambda>a. (h_fresh s, (store (h_fresh s) a ?s1)\<lparr>h_fresh := Suc (h_fresh s)\<rparr>))
          (compute_accelerations (h_masses s) P)"
      using compute_accelerations_h_pure [of ?s1 positions_ref P] P free [of "h_fresh s"]
      by simp
    show ?thesis
    proof (cases "compute_accelerations (h_masses s) P")
      case (Inl e)
      then show ?thesis using Inr by (simp add: step_def step_h_def w P c Let_def)
    next
      case A: (Inr A)
      let ?s2 = "(store (h_fresh s) A ?s1)\<lparr>h_fresh := Suc (h_fresh s)\<rparr>"
      have s2: "h_arrays ?s2 velocities_ref = Some V" "h_arrays ?s2 (h_fresh s) = Some A"
        "h_arrays ?s2 positions_ref = Some P" "h_dt ?s2 = h_dt s"
        using lt P V by simp_all
      show ?thesis
      proof (cases "iadd V (times_scalar A (h_dt s))")
        case (Inl e)
        then show ?thesis
          using Inr A s2 by (simp add: step_def step_h_def w P c Let_def)
      next
        case V': (Inr V')
        let ?s3 = "store velocities_ref V' ?s2"
        have s3: "h_arrays ?s3 velocities_ref = Some V'" "h_arrays ?s3 positions_ref = Some P"
          "h_dt ?s3 = h_dt s"
          using P ne lt by simp_all
        show ?thesis
        proof (cases "iadd P (times_scalar V' (h_dt s))")
          case (Inl e)
          then show ?thesis
            using Inr A V' s2 s3 by (simp add: step_def step_h_def w P c Let_def)
        next
          case P'': (Inr P'')
          let ?s4 = "store positions_ref P'' ?s3"
          have st: "step_h t s = Inr ?s4"
            using Inr A V' P'' s2 s3 by (simp add: step_h_def P c Let_def)
          have sw: "step t (world_of s) =
              Inr ((world_of s)\<lparr>trajectories := traj, velocities := V', positions := P''\<rparr>)"
            using Inr A V' P'' by (simp add: step_def w Let_def)
          have wo: "world_of ?s4 =
              (world_of s)\<lparr>trajectories := traj, velocities := V', positions := P''\<rparr>"
            using ne by (simp add: world_of_def)
          have wf: "well_formed ?s4"
            using lt ne free by (auto simp: well_formed_def)
          show ?thesis
            using st wo wf by (simp add: sw)
        qed
      qed
    qed
  qed
qed

lemma for_each_step_h_refines:
  assumes "well_formed s"
  shows "case for_each ks step (world_of s) of
      Inl e \<Rightarrow> for_each ks step_h s = Inl (Raised e)
    | Inr w' \<Rightarrow> \<exists>s'. for_each ks step_h s = Inr s' \<and> world_of s' = w' \<and> well_formed s' \<and>
        h_masses s' = h_masses s"
  using assms
proof (induction ks arbitrary: s)
  case Nil
  then show ?case by simp
next
  case (Cons k ks)
  show ?case
  proof (cases "step k (world_of s)")
    case (Inl e)
    then show ?thesis using step_h_refines [OF Cons.prems, of k] by simp
  next
    case (Inr w1)
    with step_h_refines [OF Cons.prems, of k] obtain s1 where
      s1: "step_h k s = Inr s1" "world_of s1 = w1" "well_formed s1" "h_masses s1 = h_masses s"
      by auto
    from Cons.IH [OF s1(3)] show ?thesis
      using Inr s1 by (auto split: sum.splits)
  qed
qed

lemma initial_heap_well_formed: "well_formed (initial_heap ms ps vs h traj)"
  by (simp add: well_formed_def initial_heap_def positions_ref_def velocities_ref_def)

lemma world_of_initial_heap:
  "world_of (initial_heap ms ps vs h traj) = initial_world ms ps vs h traj"
  by (simp add: world_of_def initial_heap_def initial_world_def positions_ref_def
      velocities_ref_def)

lemma simulate_h_refines:
  "case simulate ms ps vs h steps of
      Inl e \<Rightarrow> simulate_h ms ps vs h steps = Inl (Raised e)
    | Inr w \<Rightarrow> \<exists>s'. simulate_h ms ps vs h steps = Inr s' \<and> world_of s' = w \<and> h_masses s' = ms"
proof (cases "steps < 0")
  case True
  then show ?thesis by (simp add: simulate_def simulate_h_def zeros_3d_def)
next
  case False
  let ?traj = "replicate 3 (replicate (nat steps) vzero)"
  have 1: "simulate ms ps vs h steps =
      for_each (range_py steps) step (world_of (initial_heap ms ps vs h ?traj))"
    using False by (simp add: simulate_def zeros_3d_def world_of_initial_heap)
  have 2: "simulate_h ms ps vs h steps =
      for_each (range_py steps) step_h (initial_heap ms ps vs h ?traj)"
    using False by (simp add: simulate_h_def zeros_3d_def)
  have 3: "h_masses (initial_heap ms ps vs h ?traj) = ms"
    by (simp add: initial_heap_def)
  from for_each_step_h_refines [OF initial_heap_well_formed, of "range_py steps" ms ps vs h ?traj]
  show ?thesis
    unfolding 1 2 3 by (auto split: sum.splits)
qed

lemma masses_never_written:
  assumes "for_each ks step_h (initial_heap ms ps vs h traj) = Inr s'"
  shows "h_masses s' = ms"
proof -
  have "h_masses (initial_heap ms ps vs h traj) = ms"
    by (simp add: initial_heap_def)
  with for_each_step_h_refines [OF initial_heap_well_formed, of ks ms ps vs h traj] assms
  show ?thesis by (auto split: sum.splits)
qed

section \<open>The function over any arithmetic at the exact operations\<close>

lemma upt_3: "[0..<3] = [0, 1, 2]"
  by (simp add: upt_rec)

text \<open>With the exact operations the function over any arithmetic is the function above.\<close>

lemma exact_ops [simp]:
  "vadd_in exact = vadd" "vsub_in exact = vsub" "vscale_in exact = vscale" "vdiv_in exact = vdiv"
proof -
  show "vadd_in exact = vadd"
    by (intro ext) (rename_tac u v, case_tac u, case_tac v, simp add: exact_def)
  show "vsub_in exact = vsub"
    by (intro ext) (rename_tac u v, case_tac u, case_tac v, simp add: exact_def)
  show "vscale_in exact = vscale"
    by (intro ext) (rename_tac k v, case_tac v, simp add: exact_def)
  show "vdiv_in exact = vdiv"
    by (intro ext) (rename_tac v k, case_tac v, simp add: exact_def)
qed

lemma accumulate_in_exact: "accumulate_in exact = accumulate"
  by (intro ext) (simp add: accumulate_in_def accumulate_def, simp add: exact_def)

lemma compute_accelerations_in_exact:
  "compute_accelerations_in exact mass pos = compute_accelerations mass pos"
  by (simp add: compute_accelerations_in_def compute_accelerations_def accumulate_in_exact
      zeros_like_def vzero_def, simp add: exact_def)

section \<open>A fourth row\<close>

lemma distance_nonneg: "0 \<le> distance p q"
  by (simp add: distance_def)

lemma distance_pos: "p \<noteq> q \<Longrightarrow> 0 < distance p q"
  using distance_nonneg [of p q] distance_eq_0_iff [of p q] by simp

lemma newton_component_4th:
  "newton_component c [m0, m1, m2, m3] [p0, p1, p2, p3] 3 =
     G_real * (m0 * (c p0 - c p3) / distance p0 p3 ^ 3 + m1 * (c p1 - c p3) / distance p1 p3 ^ 3 +
       m2 * (c p2 - c p3) / distance p2 p3 ^ 3)"
proof -
  have s: "{0..<length [p0, p1, p2, p3]} - {3} = {0, 1, 2}"
    by auto
  show ?thesis
    unfolding newton_component_def s by simp
qed

section \<open>The rest of a run after a division of zero by zero\<close>

text \<open>An invariant that may depend on the loop index.\<close>

lemma for_each_upt_invariant:
  assumes "\<And>k s. a \<le> k \<Longrightarrow> k < n \<Longrightarrow> I k s \<Longrightarrow> \<exists>s'. body k s = Inr s' \<and> I (Suc k) s'"
    and "I a s" and "a \<le> n"
  shows "\<exists>s'. for_each [a..<n] body s = Inr s' \<and> I n s'"
  using assms
proof (induction "n - a" arbitrary: a s)
  case 0
  then show ?case by simp
next
  case (Suc d)
  then have a: "a < n" and d: "d = n - Suc a" by simp_all
  have u: "[a..<n] = a # [Suc a..<n]" using a by (simp add: upt_rec)
  from Suc.prems(1) [OF _ a Suc.prems(2)] obtain s1 where
    s1: "body a s = Inr s1" "I (Suc a) s1" by auto
  have "\<exists>s'. for_each [Suc a..<n] body s1 = Inr s' \<and> I n s'"
  proof (rule Suc.hyps(1) [OF d])
    show "\<exists>s'. body k s = Inr s' \<and> I (Suc k) s'" if "Suc a \<le> k" "k < n" "I k s" for k s
      using that Suc.prems(1) [of k s] by simp
    show "I (Suc a) s1" by (rule s1(2))
    show "Suc a \<le> n" using a by simp
  qed
  then show ?case using s1(1) by (simp add: u)
qed

text \<open>A body whose position and velocity are \<^verbatim>\<open>nan\<close> stays so, and the step records \<^verbatim>\<open>nan\<close>.\<close>

lemma nan_body_persists:
  assumes "well_shaped n w" "k < n" "b < 3" "positions w ! b = vnan" "velocities w ! b = vnan"
  shows "\<exists>w'. step k w = Inr w' \<and> well_shaped n w' \<and> positions w' ! b = vnan \<and>
     velocities w' ! b = vnan \<and> trajectories w' ! b = (trajectories w ! b)[k := vnan]"
proof -
  from assms(1) have sh: "3 \<le> length (masses w)" "length (positions w) = 3"
    "length (velocities w) = 3" "length (trajectories w) = 3"
    by (simp_all add: well_shaped_def)
  from step_well_shaped [OF assms(1,2)] obtain acc w' where
    acc: "length acc = 3" and st: "step k w = Inr w'"
    and w': "w' = w\<lparr>trajectories := map2 (\<lambda>row p. row[k := p]) (trajectories w) (positions w),
        velocities := map2 vadd (velocities w) (times_scalar acc (dt w)),
        positions := map2 vadd (positions w)
          (times_scalar (map2 vadd (velocities w) (times_scalar acc (dt w))) (dt w))\<rparr>"
    by blast
  from step_keeps_shape [OF assms(1,2)] st have ws: "well_shaped n w'" by auto
  have "positions w' ! b = vnan" "velocities w' ! b = vnan"
    "trajectories w' ! b = (trajectories w ! b)[k := vnan]"
    using assms(3,4,5) sh acc by (simp_all add: w' times_scalar_def)
  with st ws show ?thesis by blast
qed

lemma nan_bodies_rest_of_run:
  assumes "well_shaped n w" "t < n" "i < 3" "j < 3"
    and "positions w ! i = vnan" "velocities w ! i = vnan"
    and "positions w ! j = vnan" "velocities w ! j = vnan"
  shows "\<exists>w'. for_each [Suc t..<n] step w = Inr w' \<and>
     (\<forall>k. t < k \<and> k < n \<longrightarrow> trajectories w' ! i ! k = vnan \<and> trajectories w' ! j ! k = vnan) \<and>
     trajectories w' ! i ! t = trajectories w ! i ! t \<and>
     trajectories w' ! j ! t = trajectories w ! j ! t \<and>
     velocities w' ! i = vnan \<and> velocities w' ! j = vnan \<and>
     positions w' ! i = vnan \<and> positions w' ! j = vnan"
proof -
  define I where "I a s \<longleftrightarrow> well_shaped n s \<and>
      positions s ! i = vnan \<and> velocities s ! i = vnan \<and>
      positions s ! j = vnan \<and> velocities s ! j = vnan \<and>
      trajectories s ! i ! t = trajectories w ! i ! t \<and>
      trajectories s ! j ! t = trajectories w ! j ! t \<and>
      (\<forall>k. t < k \<and> k < a \<longrightarrow> trajectories s ! i ! k = vnan \<and> trajectories s ! j ! k = vnan)"
    for a s
  have rows: "length (trajectories s ! b) = n" if "well_shaped n s" "b < 3" for s b
    using that by (simp add: well_shaped_def list_all_length)
  have "\<exists>w'. for_each [Suc t..<n] step w = Inr w' \<and> I n w'"
  proof (rule for_each_upt_invariant [where I = I])
    show "I (Suc t) w" using assms by (auto simp: I_def)
    show "Suc t \<le> n" using assms(2) by simp
  next
    fix k s assume k: "Suc t \<le> k" "k < n" and Is: "I k s"
    from Is have ws: "well_shaped n s" by (simp add: I_def)
    from nan_body_persists [OF ws k(2) assms(3)] Is obtain s' where
      s': "step k s = Inr s'" "well_shaped n s'" "positions s' ! i = vnan"
      "velocities s' ! i = vnan" "trajectories s' ! i = (trajectories s ! i)[k := vnan]"
      by (auto simp: I_def)
    from nan_body_persists [OF ws k(2) assms(4)] Is s'(1) have
      sj: "positions s' ! j = vnan" "velocities s' ! j = vnan"
      "trajectories s' ! j = (trajectories s ! j)[k := vnan]"
      by (auto simp: I_def)
    have "I (Suc k) s'"
      unfolding I_def
      using s'(2-5) sj Is k rows [OF ws assms(3)] rows [OF ws assms(4)]
      by (auto simp: I_def nth_list_update less_Suc_eq)
    with s'(1) show "\<exists>s'. step k s = Inr s' \<and> I (Suc k) s'" by blast
  qed
  then show ?thesis by (auto simp: I_def)
qed

section \<open>The pairwise sum of the acceleration law\<close>

text \<open>
  Claim C1 is stated for every position snapshot with nonzero pairwise distances. The code
  sums over the rows 0, 1 and 2 only: with a fourth body appended to the script's
  configuration, at a position distinct from the other three, the acceleration returned
  for the fourth body is zero, while the z component of the sum of the claim for that
  body is negative.
\<close>

theorem four_row_snapshot_counterexample:
  "distinct [Vec3 (10 ^ 10) 0 0, Vec3 (- (10 ^ 10)) 0 0, Vec3 0 (10 ^ 10) 0,
      Vec3 0 0 (10 ^ 10) :: real vec3] \<and>
   (\<exists>acc. compute_accelerations (map Fin [10 ^ 27, 15 * 10 ^ 26, 55 * 10 ^ 25, 10 ^ 27])
        (map (map_vec3 Fin)
          [Vec3 (10 ^ 10) 0 0, Vec3 (- (10 ^ 10)) 0 0, Vec3 0 (10 ^ 10) 0, Vec3 0 0 (10 ^ 10)]) =
        Inr acc \<and>
      acc ! 3 = map_vec3 Fin (Vec3 0 0 0)) \<and>
   vz (newton_acceleration [10 ^ 27, 15 * 10 ^ 26, 55 * 10 ^ 25, 10 ^ 27]
        [Vec3 (10 ^ 10) 0 0, Vec3 (- (10 ^ 10)) 0 0, Vec3 0 (10 ^ 10) 0, Vec3 0 0 (10 ^ 10)] 3) < 0"
proof -
  let ?p0 = "Vec3 (10 ^ 10) 0 0 :: real vec3"
  let ?p1 = "Vec3 (- (10 ^ 10)) 0 0 :: real vec3"
  let ?p2 = "Vec3 0 (10 ^ 10) 0 :: real vec3"
  let ?p3 = "Vec3 0 0 (10 ^ 10) :: real vec3"
  have d: "0 < distance ?p0 ?p3" "0 < distance ?p1 ?p3" "0 < distance ?p2 ?p3"
    by (rule distance_pos, simp)+
  have t: "m * (0 - 10 ^ 10) / x ^ 3 < 0" if "0 < m" "0 < x" for m x :: real
    using that by (simp add: divide_neg_pos)
  have t0: "10 ^ 27 * (0 - 10 ^ 10) / distance ?p0 ?p3 ^ 3 < 0"
    by (rule t [OF _ d(1)]) simp
  have t1: "15 * 10 ^ 26 * (0 - 10 ^ 10) / distance ?p1 ?p3 ^ 3 < 0"
    by (rule t [OF _ d(2)]) simp
  have t2: "55 * 10 ^ 25 * (0 - 10 ^ 10) / distance ?p2 ?p3 ^ 3 < 0"
    by (rule t [OF _ d(3)]) simp
  have "G_real * (10 ^ 27 * (0 - 10 ^ 10) / distance ?p0 ?p3 ^ 3 +
      15 * 10 ^ 26 * (0 - 10 ^ 10) / distance ?p1 ?p3 ^ 3 +
      55 * 10 ^ 25 * (0 - 10 ^ 10) / distance ?p2 ?p3 ^ 3) < 0"
  proof (rule mult_pos_neg)
    show "0 < G_real" by (simp add: G_real_def)
    show "10 ^ 27 * (0 - 10 ^ 10) / distance ?p0 ?p3 ^ 3 +
      15 * 10 ^ 26 * (0 - 10 ^ 10) / distance ?p1 ?p3 ^ 3 +
      55 * 10 ^ 25 * (0 - 10 ^ 10) / distance ?p2 ?p3 ^ 3 < 0"
      by (intro add_neg_neg t0 t1 t2)
  qed
  then have z: "vz (newton_acceleration [10 ^ 27, 15 * 10 ^ 26, 55 * 10 ^ 25, 10 ^ 27]
      [?p0, ?p1, ?p2, ?p3] 3) < 0"
    unfolding newton_acceleration_def newton_component_4th by simp
  have a: "\<exists>acc. compute_accelerations (map Fin [10 ^ 27, 15 * 10 ^ 26, 55 * 10 ^ 25, 10 ^ 27])
        (map (map_vec3 Fin) [?p0, ?p1, ?p2, ?p3]) = Inr acc \<and>
      acc ! 3 = map_vec3 Fin (Vec3 0 0 0)"
    using compute_first_three [of "map Fin [10 ^ 27, 15 * 10 ^ 26, 55 * 10 ^ 25, 10 ^ 27]"
        "map (map_vec3 Fin) [?p0, ?p1, ?p2, ?p3]"]
    by (auto simp: nth_append vzero_def)
  have "distinct [?p0, ?p1, ?p2, ?p3]" by simp
  with a z show ?thesis by blast
qed

text \<open>
  Claim C1 as amended. For every position snapshot of exactly three rows (and at least
  three masses) \<^verbatim>\<open>compute_accelerations\<close> raises nothing, and the acceleration it returns
  for each body index \<open>i\<close> is the sum over the other two rows \<open>j\<close>, added to zero in the
  order of \<open>j\<close>, of the terms \<^verbatim>\<open>G * masses[j] * (pos[j] - pos[i]) / dist**3\<close> with
  \<^verbatim>\<open>dist = norm(pos[j] - pos[i])\<close> and \<open>G = 6.67430e-11\<close>, each term evaluated from left to
  right. The statement holds for all values of the rows and for every choice of the
  operations on the elements.
\<close>

theorem compute_accelerations_pairwise_sum:
  assumes "3 \<le> length mass" and "length pos = 3"
  shows "compute_accelerations_in A mass pos = Inr (map (pairwise_sum_in A mass pos) [0, 1, 2])"
proof -
  obtain m0 m1 m2 ms where m: "mass = m0 # m1 # m2 # ms"
    using assms(1) by (rule length_ge3E)
  obtain p0 p1 p2 where p: "pos = [p0, p1, p2]"
    using assms(2) by (rule length3E)
  show ?thesis
    unfolding m p
    by (simp add: compute_accelerations_in_def range_py_3 accumulate_in_def Let_def
        pairwise_sum_in_def pair_term_in_def upt_3 numeral_2_eq_2)
qed

text \<open>The theorem at the initial configuration of the script, in exact arithmetic.\<close>

theorem compute_accelerations_pairwise_sum_witness:
  "3 \<le> length masses_init \<and> length positions_init = 3 \<and>
   compute_accelerations_in exact masses_init positions_init =
   Inr (map (pairwise_sum_in exact masses_init positions_init) [0, 1, 2])"
proof -
  have h: "3 \<le> length masses_init" "length positions_init = 3"
    by (simp_all add: masses_init_def positions_init_def)
  from compute_accelerations_pairwise_sum [OF h, of exact] h show ?thesis by blast
qed

section \<open>The order of the updates within a step\<close>



section \<open>The first snapshot of the trajectory\<close>



section \<open>Coincident positions\<close>

text \<open>
  Claim C3 states that two bodies at the same position make the computation raise a
  singular-configuration error instead of producing \<^verbatim>\<open>nan\<close>. The code has no such check:
  with the second body on the first, two steps of the script's configuration run to the
  end, and the velocities and the recorded positions of both bodies are \<^verbatim>\<open>nan\<close>.
\<close>

theorem singular_counterexample:
  "positions_coincident ! 0 = positions_coincident ! 1 \<and>
   (\<exists>w. simulate masses_init positions_coincident velocities_init dt_init 2 = Inr w \<and>
      velocities w ! 0 = Vec3 NaN NaN NaN \<and> velocities w ! 1 = Vec3 NaN NaN NaN \<and>
      trajectories w ! 0 ! 1 = Vec3 NaN NaN NaN \<and> trajectories w ! 1 ! 1 = Vec3 NaN NaN NaN)"
  by (simp add: positions_coincident_def simulate_def zeros_3d_def range_py_2 range_py_3
      initial_world_def step_def record_positions_def compute_accelerations_def accumulate_def
      zeros_like_def iadd_def times_scalar_def masses_init_def velocities_init_def dt_init_def
      vzero_def G_def fsub_def fcube_def signed_inf_def Let_def numeral_2_eq_2 numeral_3_eq_3)

text \<open>
  Claim C3 as amended. When two of the three bodies have the same position at step \<open>t\<close>,
  nothing is raised: the accelerations of both bodies are \<^verbatim>\<open>nan\<close> in every component;
  the step completes, with their positions from before the step recorded in the
  trajectory at index \<open>t\<close> and with \<^verbatim>\<open>nan\<close> as their velocities and positions; the
  remaining steps of the run complete as well, record \<^verbatim>\<open>nan\<close> for both bodies at every
  later index and leave the entry at index \<open>t\<close> as it is, and the run ends with \<^verbatim>\<open>nan\<close> as
  the velocities and positions of both bodies.
\<close>

theorem coincident_positions_give_nan:
  assumes "well_shaped n w" and "t < n" and "i < 3" and "j < 3" and "i \<noteq> j"
    and "positions w ! i = positions w ! j"
  shows "\<exists>acc w' w''. compute_accelerations (masses w) (positions w) = Inr acc \<and>
     acc ! i = vnan \<and> acc ! j = vnan \<and>
     step t w = Inr w' \<and>
     trajectories w' ! i ! t = positions w ! i \<and> trajectories w' ! j ! t = positions w ! j \<and>
     velocities w' ! i = vnan \<and> velocities w' ! j = vnan \<and>
     positions w' ! i = vnan \<and> positions w' ! j = vnan \<and>
     for_each [Suc t..<n] step w' = Inr w'' \<and>
     (\<forall>k. t < k \<and> k < n \<longrightarrow>
        trajectories w'' ! i ! k = vnan \<and> trajectories w'' ! j ! k = vnan) \<and>
     trajectories w'' ! i ! t = positions w ! i \<and> trajectories w'' ! j ! t = positions w ! j \<and>
     velocities w'' ! i = vnan \<and> velocities w'' ! j = vnan \<and>
     positions w'' ! i = vnan \<and> positions w'' ! j = vnan"
proof -
  from assms(1) have sh: "3 \<le> length (masses w)" "length (positions w) = 3"
    "length (velocities w) = 3" "length (trajectories w) = 3"
    "list_all (\<lambda>row. length row = n) (trajectories w)"
    by (simp_all add: well_shaped_def)
  obtain m0 m1 m2 ms where m: "masses w = m0 # m1 # m2 # ms"
    using sh(1) by (rule length_ge3E)
  obtain p0 p1 p2 where p: "positions w = [p0, p1, p2]"
    using sh(2) by (rule length3E)
  from step_well_shaped [OF assms(1,2)] obtain acc w' where
    acc: "compute_accelerations (masses w) (positions w) = Inr acc" "length acc = 3"
    and st: "step t w = Inr w'"
    and w': "w' = w\<lparr>trajectories := map2 (\<lambda>row p. row[t := p]) (trajectories w) (positions w),
        velocities := map2 vadd (velocities w) (times_scalar acc (dt w)),
        positions := map2 vadd (positions w)
          (times_scalar (map2 vadd (velocities w) (times_scalar acc (dt w))) (dt w))\<rparr>"
    by blast
  from step_keeps_shape [OF assms(1,2)] st have ws': "well_shaped n w'" by auto
  have ai: "acc ! i = vnan"
    using compute_coincident_3 [OF assms(3,4,5), of p0 p1 p2 m0 m1 m2 ms] assms(6) acc(1)
    by (simp add: m p)
  have aj: "acc ! j = vnan"
    using compute_coincident_3 [OF assms(4,3), of p0 p1 p2 m0 m1 m2 ms] assms(5,6) acc(1)
    by (simp add: m p)
  have v: "velocities w' ! k = vnan" "positions w' ! k = vnan" if "k < 3" "acc ! k = vnan" for k
    using that by (simp_all add: w' sh acc(2) times_scalar_def)
  have rec: "trajectories w' ! k ! t = positions w ! k" if "k < 3" for k
    using that sh assms(2) by (simp add: w' list_all_length)
  from nan_bodies_rest_of_run [OF ws' assms(2,3,4) v(2) [OF assms(3) ai] v(1) [OF assms(3) ai]
      v(2) [OF assms(4) aj] v(1) [OF assms(4) aj]]
  obtain w'' where w'': "for_each [Suc t..<n] step w' = Inr w''"
    "\<forall>k. t < k \<and> k < n \<longrightarrow> trajectories w'' ! i ! k = vnan \<and> trajectories w'' ! j ! k = vnan"
    "trajectories w'' ! i ! t = trajectories w' ! i ! t"
    "trajectories w'' ! j ! t = trajectories w' ! j ! t"
    "velocities w'' ! i = vnan" "velocities w'' ! j = vnan"
    "positions w'' ! i = vnan" "positions w'' ! j = vnan"
    by blast
  from acc(1) st ai aj v [OF assms(3) ai] v [OF assms(4) aj] rec [OF assms(3)] rec [OF assms(4)] w''
  show ?thesis by (intro exI [of _ acc] exI [of _ w'] exI [of _ w'']) simp
qed

text \<open>The theorem at the first of two steps from the script's configuration with the second
  body on the first.\<close>

theorem coincident_positions_give_nan_witness:
  "well_shaped 2 (initial_world masses_init positions_coincident velocities_init dt_init
       (replicate 3 (replicate 2 vzero))) \<and>
   (0::nat) < 2 \<and> (0::nat) < 3 \<and> (1::nat) < 3 \<and> (0::nat) \<noteq> 1 \<and>
   positions_coincident ! 0 = positions_coincident ! 1 \<and>
   (\<exists>acc w' w''. compute_accelerations masses_init positions_coincident = Inr acc \<and>
     acc ! 0 = vnan \<and> acc ! 1 = vnan \<and>
     step 0 (initial_world masses_init positions_coincident velocities_init dt_init
       (replicate 3 (replicate 2 vzero))) = Inr w' \<and>
     trajectories w' ! 0 ! 0 = positions_coincident ! 0 \<and>
     trajectories w' ! 1 ! 0 = positions_coincident ! 1 \<and>
     velocities w' ! 0 = vnan \<and> velocities w' ! 1 = vnan \<and>
     positions w' ! 0 = vnan \<and> positions w' ! 1 = vnan \<and>
     for_each [Suc 0..<2] step w' = Inr w'' \<and>
     (\<forall>k. 0 < k \<and> k < 2 \<longrightarrow>
        trajectories w'' ! 0 ! k = vnan \<and> trajectories w'' ! 1 ! k = vnan) \<and>
     trajectories w'' ! 0 ! 0 = positions_coincident ! 0 \<and>
     trajectories w'' ! 1 ! 0 = positions_coincident ! 1 \<and>
     velocities w'' ! 0 = vnan \<and> velocities w'' ! 1 = vnan \<and>
     positions w'' ! 0 = vnan \<and> positions w'' ! 1 = vnan)"
proof -
  let ?w = "initial_world masses_init positions_coincident velocities_init dt_init
       (replicate 3 (replicate 2 vzero))"
  have ws: "well_shaped 2 ?w"
    by (rule initial_world_well_shaped)
      (simp_all add: masses_init_def positions_coincident_def velocities_init_def)
  have f: "masses ?w = masses_init" "positions ?w = positions_coincident"
    by (simp_all add: initial_world_def)
  have eq: "positions ?w ! 0 = positions ?w ! 1"
    unfolding f by (simp add: positions_coincident_def)
  have h: "(0::nat) < 2" "(0::nat) < 3" "(1::nat) < 3" "(0::nat) \<noteq> 1"
    by simp_all
  from coincident_positions_give_nan [OF ws h eq] ws h eq show ?thesis
    unfolding f by blast
qed

section \<open>The two-body scenario\<close>

text \<open>
  Claim C7 runs the simulation on two bodies. The script is written for three: the
  trajectory buffer has three body rows, and storing two positions in it fails with a
  \<^verbatim>\<open>ValueError\<close> in the first step, so no velocity is produced.
\<close>

theorem two_row_counterexample:
  "simulate [Fin (10 ^ 27), Fin (10 ^ 27)]
     [Vec3 (Fin (10 ^ 10)) (Fin 0) (Fin 0), Vec3 (Fin (- (10 ^ 10))) (Fin 0) (Fin 0)]
     [Vec3 (Fin 0) (Fin 0) (Fin 0), Vec3 (Fin 0) (Fin 0) (Fin 0)] (Fin 100) 1 = Inl ValueError"
  by (simp add: simulate_def zeros_3d_def range_py_1 step_def record_positions_def
      initial_world_def numeral_3_eq_3)

text \<open>
  Claim C7 as amended. The two-body input of the scenario is not simulated:
  \<^verbatim>\<open>compute_accelerations\<close> on its two positions raises an \<^verbatim>\<open>IndexError\<close>, and for every
  positive number of steps the first statement of the first step, which stores the two
  positions in the three rows of the trajectory, raises a \<^verbatim>\<open>ValueError\<close>, so that the
  simulation ends with that exception before any velocity is updated.
\<close>

theorem two_row_scenario_rejected:
  "compute_accelerations [Fin (10 ^ 27), Fin (10 ^ 27)]
     [Vec3 (Fin (10 ^ 10)) (Fin 0) (Fin 0), Vec3 (Fin (- (10 ^ 10))) (Fin 0) (Fin 0)] =
   Inl IndexError \<and>
   (0 < steps \<longrightarrow>
      record_positions 0
        [Vec3 (Fin (10 ^ 10)) (Fin 0) (Fin 0), Vec3 (Fin (- (10 ^ 10))) (Fin 0) (Fin 0)]
        (replicate 3 (replicate (nat steps) vzero)) = Inl ValueError \<and>
      simulate [Fin (10 ^ 27), Fin (10 ^ 27)]
        [Vec3 (Fin (10 ^ 10)) (Fin 0) (Fin 0), Vec3 (Fin (- (10 ^ 10))) (Fin 0) (Fin 0)]
        [Vec3 (Fin 0) (Fin 0) (Fin 0), Vec3 (Fin 0) (Fin 0) (Fin 0)] (Fin 100) steps =
      Inl ValueError)"
proof (intro conjI impI)
  show "compute_accelerations [Fin (10 ^ 27), Fin (10 ^ 27)]
     [Vec3 (Fin (10 ^ 10)) (Fin 0) (Fin 0), Vec3 (Fin (- (10 ^ 10))) (Fin 0) (Fin 0)] =
     Inl IndexError"
    by (rule compute_accelerations_short_pos) simp
next
  assume s: "0 < steps"
  let ?ps = "[Vec3 (Fin (10 ^ 10)) (Fin 0) (Fin 0), Vec3 (Fin (- (10 ^ 10))) (Fin 0) (Fin 0)]"
  let ?traj = "replicate 3 (replicate (nat steps) vzero)"
  show r: "record_positions 0 ?ps ?traj = Inl ValueError"
    using s by (simp add: record_positions_def list_all_length)
  have u: "[0..<nat steps] = 0 # [1..<nat steps]"
    using s by (simp add: upt_rec)
  show "simulate [Fin (10 ^ 27), Fin (10 ^ 27)] ?ps
        [Vec3 (Fin 0) (Fin 0) (Fin 0), Vec3 (Fin 0) (Fin 0) (Fin 0)] (Fin 100) steps =
      Inl ValueError"
    using s r by (simp add: simulate_unfold u step_def initial_world_def)
qed

theorem two_row_scenario_rejected_witness:
  "compute_accelerations [Fin (10 ^ 27), Fin (10 ^ 27)]
     [Vec3 (Fin (10 ^ 10)) (Fin 0) (Fin 0), Vec3 (Fin (- (10 ^ 10))) (Fin 0) (Fin 0)] =
   Inl IndexError \<and>
   (0::int) < 1 \<and>
   record_positions 0
     [Vec3 (Fin (10 ^ 10)) (Fin 0) (Fin 0), Vec3 (Fin (- (10 ^ 10))) (Fin 0) (Fin 0)]
     (replicate 3 (replicate (nat 1) vzero)) = Inl ValueError \<and>
   simulate [Fin (10 ^ 27), Fin (10 ^ 27)]
     [Vec3 (Fin (10 ^ 10)) (Fin 0) (Fin 0), Vec3 (Fin (- (10 ^ 10))) (Fin 0) (Fin 0)]
     [Vec3 (Fin 0) (Fin 0) (Fin 0), Vec3 (Fin 0) (Fin 0) (Fin 0)] (Fin 100) 1 =
   Inl ValueError"
  using two_row_scenario_rejected [of 1] by simp

section \<open>No validation of the configuration\<close>

text \<open>
  Claim C4 states that a configuration with a non-positive mass or a non-positive
  \<open>dt\<close> is rejected before any step runs. The code checks nothing: with masses
  \<open>-1e27\<close>, \<open>0\<close> and \<open>0.55e27\<close> and \<open>dt = -2500\<close> the step of a one-step simulation
  runs and returns a state.
\<close>

theorem invalid_configuration_counterexample:
  "\<exists>w. simulate [Fin (- (10 ^ 27)), Fin 0, Fin (55 * 10 ^ 25)] positions_init velocities_init
      (Fin (- 2500)) 1 = Inr w \<and> well_shaped 1 w"
proof -
  have "\<exists>w. simulate [Fin (- (10 ^ 27)), Fin 0, Fin (55 * 10 ^ 25)] positions_init
      velocities_init (Fin (- 2500)) 1 = Inr w \<and> well_shaped (nat 1) w"
    by (rule simulate_well_shaped) (simp_all add: positions_init_def velocities_init_def)
  then show ?thesis by simp
qed

text \<open>
  Claim C4 as amended. Whether the simulation returns depends on \<open>steps\<close> and on the
  shapes of the arrays only, never on the values of the masses or of \<open>dt\<close>: it returns
  exactly when \<open>steps\<close> is zero, or \<open>steps\<close> is positive and there are three positions,
  three velocities and at least three masses. A negative \<open>steps\<close> fails with a
  \<^verbatim>\<open>ValueError\<close> when the buffer is allocated, before any step; arrays of another shape
  fail in the first step, with the exception that this step raises.
\<close>

theorem simulate_accepts_by_shape_only:
  "((\<exists>w. simulate ms ps vs h steps = Inr w) \<longleftrightarrow>
      steps = 0 \<or> (0 < steps \<and> 3 \<le> length ms \<and> length ps = 3 \<and> length vs = 3)) \<and>
   (steps < 0 \<longrightarrow> simulate ms ps vs h steps = Inl ValueError) \<and>
   (0 < steps \<and> \<not> (3 \<le> length ms \<and> length ps = 3 \<and> length vs = 3) \<longrightarrow>
      (\<exists>e. step 0 (initial_world ms ps vs h (replicate 3 (replicate (nat steps) vzero))) = Inl e \<and>
         simulate ms ps vs h steps = Inl e))"
proof (intro conjI impI)
  show "(\<exists>w. simulate ms ps vs h steps = Inr w) \<longleftrightarrow>
      steps = 0 \<or> (0 < steps \<and> 3 \<le> length ms \<and> length ps = 3 \<and> length vs = 3)"
  proof
    assume ok: "\<exists>w. simulate ms ps vs h steps = Inr w"
    show "steps = 0 \<or> (0 < steps \<and> 3 \<le> length ms \<and> length ps = 3 \<and> length vs = 3)"
    proof (rule ccontr)
      assume "\<not> ?thesis"
      then have "steps < 0 \<or> (0 < steps \<and> \<not> (3 \<le> length ms \<and> length ps = 3 \<and> length vs = 3))"
        by auto
      then show False
        using ok simulate_negative [of steps ms ps vs h] simulate_bad_shape [of steps ms ps vs h]
        by auto
    qed
  next
    assume "steps = 0 \<or> (0 < steps \<and> 3 \<le> length ms \<and> length ps = 3 \<and> length vs = 3)"
    then show "\<exists>w. simulate ms ps vs h steps = Inr w"
      using simulate_zero [of ms ps vs h] simulate_well_shaped [of steps ms ps vs h] by auto
  qed
next
  assume "steps < 0"
  then show "simulate ms ps vs h steps = Inl ValueError" by (rule simulate_negative)
next
  assume "0 < steps \<and> \<not> (3 \<le> length ms \<and> length ps = 3 \<and> length vs = 3)"
  then show "\<exists>e. step 0 (initial_world ms ps vs h (replicate 3 (replicate (nat steps) vzero))) = Inl e \<and>
         simulate ms ps vs h steps = Inl e"
    using simulate_bad_shape by blast
qed

theorem simulate_accepts_by_shape_only_witness:
  "(\<exists>w. simulate masses_init positions_init velocities_init dt_init steps_init = Inr w) \<and>
   simulate masses_init positions_init velocities_init dt_init (- 1) = Inl ValueError \<and>
   (\<exists>e. step 0 (initial_world [Fin 1] [vzero] [vzero] dt_init
            (replicate 3 (replicate (nat 1) vzero))) = Inl e \<and>
      simulate [Fin 1] [vzero] [vzero] dt_init 1 = Inl e)"
proof -
  have 1: "\<exists>w. simulate masses_init positions_init velocities_init dt_init steps_init = Inr w"
    using simulate_accepts_by_shape_only
      [of masses_init positions_init velocities_init dt_init steps_init]
    by (simp add: masses_init_def positions_init_def velocities_init_def steps_init_def)
  have 2: "simulate masses_init positions_init velocities_init dt_init (- 1) = Inl ValueError"
    using simulate_accepts_by_shape_only
      [of masses_init positions_init velocities_init dt_init "- 1"]
    by simp
  have 3: "\<exists>e. step 0 (initial_world [Fin 1] [vzero] [vzero] dt_init
            (replicate 3 (replicate (nat 1) vzero))) = Inl e \<and>
      simulate [Fin 1] [vzero] [vzero] dt_init 1 = Inl e"
    using simulate_accepts_by_shape_only [of "[Fin 1]" "[vzero]" "[vzero]" dt_init 1]
    by simp
  from 1 2 3 show ?thesis by blast
qed

section \<open>Conservation of momentum\<close>



section \<open>The hard-coded number of bodies\<close>

text \<open>
  Claim C10 ends with: the whole simulation processes exactly three bodies regardless of
  the sizes of the input arrays. The loop does not cut longer arrays down to three rows:
  with a fourth body appended to the script's configuration, storing the four positions
  in the three rows of the trajectory fails with a \<^verbatim>\<open>ValueError\<close> in the first step.
\<close>

theorem four_rows_counterexample:
  "simulate (masses_init @ [Fin (10 ^ 27)])
     (positions_init @ [Vec3 (Fin 0) (Fin 0) (Fin (10 ^ 10))])
     (velocities_init @ [Vec3 (Fin 0) (Fin 0) (Fin 0)]) dt_init 1 = Inl ValueError"
  by (simp add: simulate_def zeros_3d_def range_py_1 step_def record_positions_def
      initial_world_def positions_init_def numeral_3_eq_3)

text \<open>
  Claim C10 as amended. \<^verbatim>\<open>compute_accelerations\<close> visits the indices 0, 1 and 2 only: on
  arrays of at least three rows its result is the result on the first three positions
  and masses, followed by a zero row for every further position. In the simulation the
  masses after the third are never read, the trajectory of a run that returns has
  exactly three body rows, and positions or velocities with any other number of rows
  make a run of at least one step raise.
\<close>

theorem hard_coded_three_bodies:
  "(3 \<le> length ms \<and> 3 \<le> length pos \<longrightarrow>
      (\<exists>a. compute_accelerations (take 3 ms) (take 3 pos) = Inr a \<and> length a = 3 \<and>
         compute_accelerations ms pos = Inr (a @ replicate (length pos - 3) vzero))) \<and>
   (3 \<le> length ms \<longrightarrow>
      simulate (take 3 ms) ps vs h steps =
      map_sum id truncate_masses (simulate ms ps vs h steps)) \<and>
   (\<forall>w. simulate ms ps vs h steps = Inr w \<longrightarrow> length (trajectories w) = 3) \<and>
   (0 < steps \<and> (length ps \<noteq> 3 \<or> length vs \<noteq> 3) \<longrightarrow>
      (\<exists>e. simulate ms ps vs h steps = Inl e))"
proof (intro conjI impI allI)
  assume "3 \<le> length ms \<and> 3 \<le> length pos"
  then show "\<exists>a. compute_accelerations (take 3 ms) (take 3 pos) = Inr a \<and> length a = 3 \<and>
         compute_accelerations ms pos = Inr (a @ replicate (length pos - 3) vzero)"
    using compute_first_three by blast
next
  assume "3 \<le> length ms"
  then show "simulate (take 3 ms) ps vs h steps =
      map_sum id truncate_masses (simulate ms ps vs h steps)"
    by (rule simulate_truncate_masses)
next
  fix w assume "simulate ms ps vs h steps = Inr w"
  then show "length (trajectories w) = 3" by (rule simulate_trajectories)
next
  assume "0 < steps \<and> (length ps \<noteq> 3 \<or> length vs \<noteq> 3)"
  then have "0 < steps" "\<not> (3 \<le> length ms \<and> length ps = 3 \<and> length vs = 3)"
    by auto
  from simulate_bad_shape [OF this] show "\<exists>e. simulate ms ps vs h steps = Inl e"
    by blast
qed

theorem hard_coded_three_bodies_witness:
  "(\<exists>a. compute_accelerations (take 3 (masses_init @ [Fin (10 ^ 27)]))
           (take 3 (positions_init @ [Vec3 (Fin 0) (Fin 0) (Fin (10 ^ 10))])) = Inr a \<and>
         length a = 3 \<and>
         compute_accelerations (masses_init @ [Fin (10 ^ 27)])
           (positions_init @ [Vec3 (Fin 0) (Fin 0) (Fin (10 ^ 10))]) =
         Inr (a @ replicate (length (positions_init @ [Vec3 (Fin 0) (Fin 0) (Fin (10 ^ 10))]) - 3)
           vzero)) \<and>
   simulate (take 3 (masses_init @ [Fin (10 ^ 27)])) positions_init velocities_init dt_init
     steps_init =
   map_sum id truncate_masses
     (simulate (masses_init @ [Fin (10 ^ 27)]) positions_init velocities_init dt_init steps_init) \<and>
   (\<exists>w. simulate masses_init positions_init velocities_init dt_init 1 = Inr w \<and>
      length (trajectories w) = 3) \<and>
   (\<exists>e. simulate (masses_init @ [Fin (10 ^ 27)])
          (positions_init @ [Vec3 (Fin 0) (Fin 0) (Fin (10 ^ 10))])
          (velocities_init @ [Vec3 (Fin 0) (Fin 0) (Fin 0)]) dt_init 1 = Inl e)"
proof -
  let ?ms = "masses_init @ [Fin (10 ^ 27)]"
  let ?ps = "positions_init @ [Vec3 (Fin 0) (Fin 0) (Fin (10 ^ 10))]"
  let ?vs = "velocities_init @ [Vec3 (Fin 0) (Fin 0) (Fin 0)]"
  have len: "3 \<le> length ?ms" "3 \<le> length ?ps" "length ?ps \<noteq> 3"
    "3 \<le> length masses_init" "length positions_init = 3" "length velocities_init = 3"
    by (simp_all add: masses_init_def positions_init_def velocities_init_def)
  note main = hard_coded_three_bodies
  have 1: "\<exists>a. compute_accelerations (take 3 ?ms) (take 3 ?ps) = Inr a \<and> length a = 3 \<and>
         compute_accelerations ?ms ?ps = Inr (a @ replicate (length ?ps - 3) vzero)"
    using main [of ?ms ?ps] len(1,2) by blast
  have 2: "simulate (take 3 ?ms) positions_init velocities_init dt_init steps_init =
      map_sum id truncate_masses
        (simulate ?ms positions_init velocities_init dt_init steps_init)"
    using main [of ?ms _ positions_init velocities_init dt_init steps_init] len(1) by blast
  obtain w where w: "simulate masses_init positions_init velocities_init dt_init 1 = Inr w"
    using simulate_well_shaped [of 1 masses_init positions_init velocities_init dt_init] len(4-6)
    by auto
  then have 3: "\<exists>w. simulate masses_init positions_init velocities_init dt_init 1 = Inr w \<and>
      length (trajectories w) = 3"
    using main [of masses_init _ positions_init velocities_init dt_init 1] by blast
  have 4: "\<exists>e. simulate ?ms ?ps ?vs dt_init 1 = Inl e"
    using main [of ?ms _ ?ps ?vs dt_init 1] len(3) by simp
  from 1 2 3 4 show ?thesis by blast
qed

section \<open>What the acceleration law and the loop write\<close>

text \<open>
  Claim C8. A call of \<^verbatim>\<open>compute_accelerations\<close> on an array \<open>pos\<close> either raises what the
  function of the masses and of the values of \<open>pos\<close> raises, or returns a newly allocated
  array holding the value of that function and leaves every array that existed before
  the call, \<open>pos\<close> among them, and the masses, the time step and the trajectory as they
  were. After any number of loop iterations the masses are those the run started with.
  The run on the store ends as the run on values does.
\<close>

theorem no_mutation_of_inputs:
  "(h_arrays s pos = Some P \<and> h_arrays s (h_fresh s) = None \<longrightarrow>
      (\<exists>e. compute_accelerations (h_masses s) P = Inl e \<and>
         compute_accelerations_h pos s = Inl (Raised e)) \<or>
      (\<exists>a acc s'. compute_accelerations (h_masses s) P = Inr a \<and>
         compute_accelerations_h pos s = Inr (acc, s') \<and>
         h_arrays s acc = None \<and> h_arrays s' = (h_arrays s)(acc \<mapsto> a) \<and>
         h_arrays s' pos = Some P \<and> h_masses s' = h_masses s \<and> h_dt s' = h_dt s \<and>
         h_trajectories s' = h_trajectories s)) \<and>
   (\<forall>s'. for_each ks step_h (initial_heap ms ps vs h traj) = Inr s' \<longrightarrow> h_masses s' = ms) \<and>
   (case simulate ms ps vs h steps of
      Inl e \<Rightarrow> simulate_h ms ps vs h steps = Inl (Raised e)
    | Inr w \<Rightarrow> \<exists>s'. simulate_h ms ps vs h steps = Inr s' \<and> world_of s' = w \<and> h_masses s' = ms)"
proof (intro conjI impI allI)
  assume a: "h_arrays s pos = Some P \<and> h_arrays s (h_fresh s) = None"
  then have ne: "pos \<noteq> h_fresh s" by auto
  from a have eq: "compute_accelerations_h pos s =
      map_sum Raised (\<lambda>a. (h_fresh s, (store (h_fresh s) a s)\<lparr>h_fresh := Suc (h_fresh s)\<rparr>))
        (compute_accelerations (h_masses s) P)"
    by (simp add: compute_accelerations_h_pure)
  show "(\<exists>e. compute_accelerations (h_masses s) P = Inl e \<and>
         compute_accelerations_h pos s = Inl (Raised e)) \<or>
      (\<exists>a acc s'. compute_accelerations (h_masses s) P = Inr a \<and>
         compute_accelerations_h pos s = Inr (acc, s') \<and>
         h_arrays s acc = None \<and> h_arrays s' = (h_arrays s)(acc \<mapsto> a) \<and>
         h_arrays s' pos = Some P \<and> h_masses s' = h_masses s \<and> h_dt s' = h_dt s \<and>
         h_trajectories s' = h_trajectories s)"
  proof (cases "compute_accelerations (h_masses s) P")
    case (Inl e)
    then show ?thesis by (simp add: eq)
  next
    case (Inr a)
    then show ?thesis using a ne by (simp add: eq)
  qed
next
  fix s' assume "for_each ks step_h (initial_heap ms ps vs h traj) = Inr s'"
  then show "h_masses s' = ms" by (rule masses_never_written)
next
  show "case simulate ms ps vs h steps of
      Inl e \<Rightarrow> simulate_h ms ps vs h steps = Inl (Raised e)
    | Inr w \<Rightarrow> \<exists>s'. simulate_h ms ps vs h steps = Inr s' \<and> world_of s' = w \<and> h_masses s' = ms"
    by (rule simulate_h_refines)
qed

text \<open>The theorem at the script's own configuration.\<close>

theorem no_mutation_of_inputs_witness:
  "h_arrays (initial_heap masses_init positions_init velocities_init dt_init []) positions_ref =
     Some positions_init \<and>
   h_arrays (initial_heap masses_init positions_init velocities_init dt_init [])
     (h_fresh (initial_heap masses_init positions_init velocities_init dt_init [])) = None \<and>
   (\<exists>a acc s'. compute_accelerations masses_init positions_init = Inr a \<and>
      compute_accelerations_h positions_ref
        (initial_heap masses_init positions_init velocities_init dt_init []) = Inr (acc, s') \<and>
      h_arrays s' = (h_arrays (initial_heap masses_init positions_init velocities_init dt_init []))
        (acc \<mapsto> a) \<and>
      h_arrays s' positions_ref = Some positions_init \<and> h_masses s' = masses_init) \<and>
   (\<exists>s'. for_each (range_py 1) step_h
        (initial_heap masses_init positions_init velocities_init dt_init
          (replicate 3 (replicate (nat 1) vzero))) = Inr s' \<and>
      h_masses s' = masses_init) \<and>
   (\<exists>w s'. simulate masses_init positions_init velocities_init dt_init 1 = Inr w \<and>
      simulate_h masses_init positions_init velocities_init dt_init 1 = Inr s' \<and>
      world_of s' = w \<and> h_masses s' = masses_init)"
proof -
  let ?s = "initial_heap masses_init positions_init velocities_init dt_init []"
  note main = no_mutation_of_inputs
  have h: "h_arrays ?s positions_ref = Some positions_init"
    "h_arrays ?s (h_fresh ?s) = None" "h_masses ?s = masses_init"
    by (simp_all add: initial_heap_def positions_ref_def velocities_ref_def)
  have tot: "\<exists>a. compute_accelerations masses_init positions_init = Inr a"
    using compute_accelerations_total [of masses_init positions_init]
    by (auto simp: masses_init_def positions_init_def)
  have 1: "\<exists>a acc s'. compute_accelerations masses_init positions_init = Inr a \<and>
      compute_accelerations_h positions_ref ?s = Inr (acc, s') \<and>
      h_arrays s' = (h_arrays ?s)(acc \<mapsto> a) \<and>
      h_arrays s' positions_ref = Some positions_init \<and> h_masses s' = masses_init"
    using main [of ?s positions_ref positions_init "[]" "[]" "[]" "[]" dt_init "[]" 0,
        THEN conjunct1] h tot
    by auto
  obtain w where w: "simulate masses_init positions_init velocities_init dt_init 1 = Inr w"
    using simulate_well_shaped [of 1 masses_init positions_init velocities_init dt_init]
    by (auto simp: masses_init_def positions_init_def velocities_init_def)
  with main [of ?s positions_ref positions_init "[]" masses_init positions_init
      velocities_init dt_init "[]" 1, THEN conjunct2, THEN conjunct2]
  obtain s' where s': "simulate_h masses_init positions_init velocities_init dt_init 1 = Inr s'"
    "world_of s' = w" "h_masses s' = masses_init"
    by auto
  from s'(1) have run: "for_each (range_py 1) step_h
      (initial_heap masses_init positions_init velocities_init dt_init
        (replicate 3 (replicate (nat 1) vzero))) = Inr s'"
    by (simp add: simulate_h_def zeros_3d_def)
  have 2: "\<exists>s'. for_each (range_py 1) step_h
        (initial_heap masses_init positions_init velocities_init dt_init
          (replicate 3 (replicate (nat 1) vzero))) = Inr s' \<and>
      h_masses s' = masses_init"
    using run main [of ?s positions_ref positions_init "range_py 1" masses_init positions_init
        velocities_init dt_init "replicate 3 (replicate (nat 1) vzero)" 1,
        THEN conjunct2, THEN conjunct1]
    by blast
  from h(1,2) 1 2 w s' show ?thesis by blast
qed

end
